theory Spec2Isabelle
  imports Main
begin

section \<open>Python values\<close>

text \<open>
  A Python \<open>str\<close> is modelled as a \<open>string\<close> holding its UTF-8 encoding. Concatenation,
  equality and dictionary lookup of strings agree with the code-point view, and these are
  the only string operations the renderer uses. An attribute that holds a string or
  \<open>None\<close> is a \<open>string option\<close>.
\<close>

datatype error = TypeError | KeyError | AttributeError

text \<open>Truth value of a string-or-None, as an \<open>if\<close> or an \<open>and\<close>/\<open>or\<close> tests it.\<close>

fun truthy :: "string option \<Rightarrow> bool" where
  "truthy None = False"
| "truthy (Some s) = (s \<noteq> [])"

definition py_or :: "string option \<Rightarrow> string option \<Rightarrow> string option" where
  "py_or a b = (if truthy a then a else b)"

text \<open>What an f-string writes for a string-or-None.\<close>

fun py_str :: "string option \<Rightarrow> string" where
  "py_str None = ''None''"
| "py_str (Some s) = s"

text \<open>\<open>str(n)\<close> of a non-negative integer: its decimal digits.\<close>

definition digit_char :: "nat \<Rightarrow> char" where
  "digit_char d = ''0123456789'' ! d"

function str_nat :: "nat \<Rightarrow> string" where
  "str_nat n = (if n < 10 then [digit_char n] else str_nat (n div 10) @ [digit_char (n mod 10)])"
  by pat_completeness auto
termination
  by (relation "measure (\<lambda>n. n)") auto

declare str_nat.simps [simp del]

text \<open>\<open>base.join(xs)\<close>.\<close>

fun join_str :: "string \<Rightarrow> string list \<Rightarrow> string" where
  "join_str base [] = []"
| "join_str base [x] = x"
| "join_str base (x # y # ys) = x @ base @ join_str base (y # ys)"

text \<open>\<open>filter(lambda x: x is not None, xs)\<close>.\<close>

fun not_none :: "'a option list \<Rightarrow> 'a list" where
  "not_none [] = []"
| "not_none (None # xs) = not_none xs"
| "not_none (Some x # xs) = x # not_none xs"

text \<open>\<open>d.get(k, default)\<close>.\<close>

definition dict_get :: "('k \<rightharpoonup> 'v) \<Rightarrow> 'k \<Rightarrow> 'v \<Rightarrow> 'v" where
  "dict_get d k dflt = (case d k of None \<Rightarrow> dflt | Some v \<Rightarrow> v)"

section \<open>The token tree\<close>

text \<open>
  The token classes are defined by the parser, outside the renderer. A token is its kind
  with the attributes the renderer reads, and its ordered children; a token whose
  \<open>children\<close> attribute is missing or \<open>None\<close> has the empty list here (the collector and
  the table-body rule treat the two alike, and no rule of a leaf kind reads the list).
  \<^item> \<open>Unit value prefix unit\<close>
  \<^item> \<open>Picture id ref text number\<close>, \<open>Photo id ref text number\<close>
  \<^item> \<open>Table name caption number\<close>, where \<open>number = None\<close> is a table that has no
    \<open>number\<close> attribute yet
  \<^item> \<open>TableCell header alignment\<close>, \<open>TableBody header\<close>
  \<^item> \<open>QsoTurn received\<close>: one turn of a \<open>Qso\<close>
  \<^item> \<open>SlideBreak attribute\<close>
  \<^item> \<open>Other\<close>: a token of a kind of the base library
\<close>

datatype kind =
    Document
  | Dash
  | BlockComment
  | Quote
  | Unit string string string
  | Underline
  | Morse string
  | Tag string
  | HalfwidthSpaces string string
  | NonbreakingSpaces string string
  | NonbreakingSpacesDots string string string
  | References string
  | Question string
  | Picture string "string option" string string
  | Photo string "string option" string string
  | Table "string option" string "string option"
  | TableHeader
  | TableRow
  | TableCell bool "string option"
  | TableBody bool
  | Qso
  | QsoTurn bool
  | Include string
  | Formula string
  | ThematicBreak
  | SlideBreak "string option"
  | Other

datatype token = Token kind "token list"

fun kind_of :: "token \<Rightarrow> kind" where
  "kind_of (Token k cs) = k"

fun children :: "token \<Rightarrow> token list" where
  "children (Token k cs) = cs"

section \<open>The renderer instance\<close>

datatype mode = DocumentMode | SlideMode

text \<open>
  The fields of a renderer instance. \<open>mode\<close> stands for the instance's class
  (\<open>FiftyOhmHtmlRenderer\<close> or \<open>FiftyOhmHtmlSlideRenderer\<close>). The last two fields are the
  collaborators the renderer reaches without an attribute of its own: the margin template
  that \<open>render_tag_helper\<close> loads, and \<open>Morse.convert_to_morse_code\<close>.
  \<open>template_calls\<close> is the renderer's effect on the template collaborator: the arguments
  \<open>(type, content, id, margin_anchor_id)\<close> of every call of \<open>render_tag_helper\<close>, in the
  order of the calls.
\<close>

record renderer =
  mode :: mode
  margin_anchor_id :: nat
  margin_id :: nat
  section_url :: string
  ref_id :: nat
  question_renderer :: "(string \<Rightarrow> string) option"
  picture_handler :: "(string \<Rightarrow> string option) option"
  photo_handler :: "(string \<Rightarrow> string option) option"
  include_handler :: "(string \<Rightarrow> string) option"
  edition :: "string option"
  chapter' :: "string option"
  section' :: "string option"
  figure_map :: "string \<rightharpoonup> string"
  figure_counter :: nat
  margin_template :: "string \<Rightarrow> string \<Rightarrow> nat \<Rightarrow> nat \<Rightarrow> string"
  convert_to_morse_code :: "string \<Rightarrow> int list list"
  template_calls :: "(string \<times> string \<times> nat \<times> nat) list"

text \<open>The keyword arguments of the constructor, and the two outside collaborators.\<close>

record config =
  cfg_question_renderer :: "(string \<Rightarrow> string) option"
  cfg_picture_handler :: "(string \<Rightarrow> string option) option"
  cfg_photo_handler :: "(string \<Rightarrow> string option) option"
  cfg_include_handler :: "(string \<Rightarrow> string) option"
  cfg_edition :: "string option"
  cfg_chapter :: "string option"
  cfg_section :: "string option"
  cfg_section_url :: "string option"
  cfg_margin_template :: "string \<Rightarrow> string \<Rightarrow> nat \<Rightarrow> nat \<Rightarrow> string"
  cfg_convert_to_morse_code :: "string \<Rightarrow> int list list"

text \<open>\<open>FiftyOhmHtmlRenderer.__init__\<close>, on top of the class attributes.\<close>

definition FiftyOhmHtmlRenderer :: "config \<Rightarrow> renderer" where
  "FiftyOhmHtmlRenderer cfg =
     \<lparr> mode = DocumentMode,
       margin_anchor_id = 0,
       margin_id = 0,
       section_url = (case cfg_section_url cfg of None \<Rightarrow> ''section.html'' | Some u \<Rightarrow> u),
       ref_id = 0,
       question_renderer = cfg_question_renderer cfg,
       picture_handler = cfg_picture_handler cfg,
       photo_handler = cfg_photo_handler cfg,
       include_handler = cfg_include_handler cfg,
       edition = cfg_edition cfg,
       chapter' = cfg_chapter cfg,
       section' = cfg_section cfg,
       figure_map = Map.empty,
       figure_counter = 0,
       margin_template = cfg_margin_template cfg,
       convert_to_morse_code = cfg_convert_to_morse_code cfg,
       template_calls = [] \<rparr>"

text \<open>\<open>FiftyOhmHtmlSlideRenderer.__init__\<close>: the same, then the edition gets its suffix.\<close>

definition FiftyOhmHtmlSlideRenderer :: "config \<Rightarrow> renderer" where
  "FiftyOhmHtmlSlideRenderer cfg =
     (let self = (FiftyOhmHtmlRenderer cfg)\<lparr>mode := SlideMode\<rparr>
      in if truthy (edition self)
         then self\<lparr>edition := Some (py_str (edition self) @ ''S'')\<rparr>
         else self)"

section \<open>The numbering pass\<close>

definition format_figure_number :: "renderer \<Rightarrow> nat \<Rightarrow> string" where
  "format_figure_number self counter =
     (if truthy (edition self) \<and> truthy (chapter' self) \<and> truthy (section' self)
      then py_str (edition self) @ ''-'' @ py_str (chapter' self) @ ''.''
           @ py_str (section' self) @ ''.'' @ str_nat counter
      else str_nat counter)"

text \<open>\<open>isinstance(child, Picture | Photo | Table)\<close>.\<close>

fun is_figure :: "kind \<Rightarrow> bool" where
  "is_figure (Picture i r t n) = True"
| "is_figure (Photo i r t n) = True"
| "is_figure (Table nm c n) = True"
| "is_figure k = False"

text \<open>
  \<open>getattr(child, "ref", None)\<close> and \<open>getattr(child, "name", None)\<close>: pictures and photos
  carry \<open>ref\<close>, tables carry \<open>name\<close>.
\<close>

fun attr_ref :: "kind \<Rightarrow> string option" where
  "attr_ref (Picture i r t n) = r"
| "attr_ref (Photo i r t n) = r"
| "attr_ref k = None"

fun attr_name :: "kind \<Rightarrow> string option" where
  "attr_name (Table nm c n) = nm"
| "attr_name k = None"

text \<open>\<open>child.number = s\<close> and the value of \<open>child.number\<close>.\<close>

fun set_number :: "string \<Rightarrow> kind \<Rightarrow> kind" where
  "set_number s (Picture i r t n) = Picture i r t s"
| "set_number s (Photo i r t n) = Photo i r t s"
| "set_number s (Table nm c n) = Table nm c (Some s)"
| "set_number s k = k"

fun attr_number :: "kind \<Rightarrow> string option" where
  "attr_number (Picture i r t n) = Some n"
| "attr_number (Photo i r t n) = Some n"
| "attr_number (Table nm c n) = n"
| "attr_number k = None"

text \<open>\<open>getattr(child, "ref", None) or getattr(child, "name", None)\<close>.\<close>

definition figure_ref_id :: "kind \<Rightarrow> string option" where
  "figure_ref_id k = py_or (attr_ref k) (attr_name k)"

text \<open>
  The body of the loop of \<open>_collect_figures_recursive\<close> before it recurses: what happens
  to one child.
\<close>

definition number_child :: "renderer \<Rightarrow> kind \<Rightarrow> renderer \<times> kind" where
  "number_child self k =
     (if is_figure k then
        (case figure_ref_id k of
           None \<Rightarrow> (self, set_number [] k)
         | Some key \<Rightarrow>
             if key \<noteq> [] then
               (let self1 = self\<lparr>figure_counter := figure_counter self + 1\<rparr>;
                    hierarchical_num = format_figure_number self1 (figure_counter self1);
                    self2 = self1\<lparr>figure_map := (figure_map self1)(key \<mapsto> hierarchical_num)\<rparr>
                in (self2, set_number hierarchical_num k))
             else (self, set_number [] k))
      else (self, k))"

fun collect_figures_recursive :: "renderer \<Rightarrow> token \<Rightarrow> renderer \<times> token"
  and collect_children :: "renderer \<Rightarrow> token list \<Rightarrow> renderer \<times> token list" where
  "collect_figures_recursive self (Token k cs) =
     (case collect_children self cs of (self', cs') \<Rightarrow> (self', Token k cs'))"
| "collect_children self [] = (self, [])"
| "collect_children self (Token k cs # rest) =
     (case number_child self k of (self1, k') \<Rightarrow>
        (case collect_figures_recursive self1 (Token k' cs) of (self2, child') \<Rightarrow>
           (case collect_children self2 rest of (self3, rest') \<Rightarrow>
              (self3, child' # rest'))))"

definition collect_figures :: "renderer \<Rightarrow> token \<Rightarrow> renderer \<times> token" where
  "collect_figures self document =
     collect_figures_recursive (self\<lparr>figure_counter := 0, figure_map := Map.empty\<rparr>) document"

section \<open>Rules without children\<close>

definition render_dash :: string where
  "render_dash = '' &ndash; ''"

definition units :: "string \<rightharpoonup> string" where
  "units = [''Ohm'' \<mapsto> [CHR 0xCE, CHR 0xA9]]"

definition convert_unit_helper :: "string \<Rightarrow> string" where
  "convert_unit_helper unit = (case units unit of Some u \<Rightarrow> u | None \<Rightarrow> unit)"

text \<open>\<open>render_unit\<close>, of a token with the attributes \<open>value\<close>, \<open>prefix\<close> and \<open>unit\<close>.\<close>

definition render_unit :: "string \<Rightarrow> string \<Rightarrow> string \<Rightarrow> string" where
  "render_unit val prefix unit =
     (let unit' = prefix @ convert_unit_helper unit
      in if unit \<in> set [[CHR 0xC2, CHR 0xB0], ''%'']
         then val @ unit'
         else val @ ''&#8239;'' @ unit')"

definition morse_symbol :: "int \<Rightarrow> string" where
  \<open>morse_symbol symbol =
     ''<span class="morse_symbol">\<newline>''
     @ (if symbol = 1 then [CHR 0xE2, CHR 0x96, CHR 0x84]
        else if symbol = 2 then [CHR 0xE2, CHR 0x96, CHR 0x84, CHR 0xE2, CHR 0x96, CHR 0x84,
                                 CHR 0xE2, CHR 0x96, CHR 0x84]
        else if symbol = 3 then ''&nbsp;''
        else [])
     @ ''</span>\<newline>''\<close>

definition render_morse_helper :: "int list list \<Rightarrow> string" where
  \<open>render_morse_helper morse_code =
     foldl (\<lambda>result char.
              foldl (\<lambda>result symbol. result @ morse_symbol symbol)
                    (result @ ''<span class="morse_char">\<newline>'') char
              @ ''</span>\<newline>'')
           ''<span class="morse">'' morse_code
     @ ''</span>''\<close>

definition render_morse :: "renderer \<Rightarrow> string \<Rightarrow> string" where
  "render_morse self content = render_morse_helper (convert_to_morse_code self content)"

text \<open>\<open>render_tag_helper\<close>: the margin template renders the fragment, and the call is recorded.\<close>

definition render_tag_helper ::
    "renderer \<Rightarrow> string \<Rightarrow> string \<Rightarrow> nat \<Rightarrow> nat \<Rightarrow> string \<times> renderer" where
  "render_tag_helper self type content mid anchor =
     (margin_template self type content mid anchor,
      self\<lparr>template_calls := template_calls self @ [(type, content, mid, anchor)]\<rparr>)"

definition render_halfwidth_spaces :: "string \<Rightarrow> string \<Rightarrow> string" where
  "render_halfwidth_spaces first second = first @ ''.&#8239;'' @ second @ ''.''"

definition render_nonbreaking_spaces :: "string \<Rightarrow> string \<Rightarrow> string" where
  "render_nonbreaking_spaces first second = first @ ''&#160;'' @ second"

definition render_nonbreaking_spaces_dots :: "string \<Rightarrow> string \<Rightarrow> string \<Rightarrow> error + string" where
  "render_nonbreaking_spaces_dots first second third =
     (let lookup = [[] \<mapsto> [], '' '' \<mapsto> ''&#160;'']
      in case lookup first of
           None \<Rightarrow> Inl KeyError
         | Some a \<Rightarrow> (case lookup third of
                        None \<Rightarrow> Inl KeyError
                      | Some b \<Rightarrow> Inr (a @ second @ b)))"

definition render_references :: "renderer \<Rightarrow> string \<Rightarrow> string" where
  \<open>render_references self first =
     (let figure_num = dict_get (figure_map self) first ''?''
      in ''<a href="'' @ section_url self @ ''#ref_'' @ first @ ''"''
         @ '' onclick="highlightRef('' @ [CHR 0x27] @ first @ [CHR 0x27] @ '');">''
         @ figure_num @ ''</a>'')\<close>

definition render_question :: "renderer \<Rightarrow> string \<Rightarrow> error + string" where
  "render_question self question_number =
     (case question_renderer self of
        None \<Rightarrow> Inl TypeError
      | Some f \<Rightarrow> Inr (f question_number))"

definition render_img_helper :: "string \<Rightarrow> string \<Rightarrow> string" where
  \<open>render_img_helper url alt_text =
     ''\<newline>                <img src="'' @ url @ ''" alt="'' @ alt_text
     @ ''">\<newline>                ''\<close>

text \<open>\<open>render_figure_link_helper\<close>: the slide renderer overrides the document renderer's.\<close>

definition render_figure_link_helper :: "mode \<Rightarrow> string \<Rightarrow> string \<Rightarrow> string" where
  \<open>render_figure_link_helper m url text =
     (case m of
        DocumentMode \<Rightarrow>
          ''\<newline>                <a href="'' @ url @ ''">'' @ text
          @ ''</a>\<newline>                ''
      | SlideMode \<Rightarrow> text)\<close>

definition render_figure_helper ::
    "string \<Rightarrow> string \<Rightarrow> string \<Rightarrow> string \<Rightarrow> string \<Rightarrow> string \<Rightarrow> string" where
  \<open>render_figure_helper ref text number alt_text css_class content =
     ''\<newline>                <figure class="'' @ css_class @ ''" id="ref_'' @ ref
     @ ''" name="'' @ ref @ ''">\<newline>                    '' @ content
     @ ''\<newline>                    <figcaption>Abbildung '' @ number @ '': '' @ text
     @ ''</figcaption>\<newline>                </figure>\<newline>                ''\<close>

definition render_picture :: "renderer \<Rightarrow> string \<Rightarrow> string option \<Rightarrow> string \<Rightarrow> string \<Rightarrow> string" where
  "render_picture self ident ref text number =
     (let alt_text = (case picture_handler self of
                        None \<Rightarrow> []
                      | Some h \<Rightarrow> py_str (h ident));
          url = ''pictures/'' @ ident @ ''.svg'';
          img_text = render_img_helper url alt_text;
          content = render_figure_link_helper (mode self) url img_text
      in render_figure_helper (py_str ref) text number alt_text ''picture'' content)"

definition render_photo :: "renderer \<Rightarrow> string \<Rightarrow> string option \<Rightarrow> string \<Rightarrow> string \<Rightarrow> string" where
  "render_photo self ident ref text number =
     (let alt_text = (case photo_handler self of
                        None \<Rightarrow> []
                      | Some h \<Rightarrow> py_str (py_or (h ident) (Some [])));
          url = ''photos/'' @ ident @ ''.png'';
          img_text = render_img_helper url alt_text;
          content = render_figure_link_helper (mode self) url img_text
      in render_figure_helper (py_str ref) text number alt_text ''photo'' content)"

text \<open>\<open>render_table\<close>, given the rendered children.\<close>

definition table_markup :: "string option \<Rightarrow> string \<Rightarrow> string option \<Rightarrow> string \<Rightarrow> string" where
  \<open>table_markup name caption number inner =
     (let table_attrs = (if truthy name
                         then '' id="ref_'' @ py_str name @ ''" name="'' @ py_str name @ ''"''
                         else []);
          table = ''<table class="table table-hover"'' @ table_attrs @ ''>\<newline>'' @ inner;
          table = (if caption \<noteq> []
                   then (let caption_text = (if truthy number
                                             then ''Tabelle '' @ py_str number @ '': '' @ caption
                                             else caption)
                         in table @ ''<caption>'' @ caption_text @ ''</caption>\<newline>'')
                   else table)
      in table @ ''</table>'')\<close>

definition table_alignment :: "string \<rightharpoonup> string" where
  "table_alignment = [''l'' \<mapsto> ''left'', ''c'' \<mapsto> ''center'', ''r'' \<mapsto> ''right'']"

text \<open>\<open>render_table_row\<close>, \<open>render_table_cell\<close> and \<open>render_table_body\<close>, given the rendered children.\<close>

definition table_row_markup :: "string \<Rightarrow> string" where
  \<open>table_row_markup inner = ''<tr>\<newline>'' @ inner @ ''</tr>\<newline>''\<close>

definition table_cell_markup :: "bool \<Rightarrow> string option \<Rightarrow> string \<Rightarrow> string" where
  \<open>table_cell_markup header alignment inner =
     (let type = (if header then ''th'' else ''td'');
          style = (case alignment of
                     None \<Rightarrow> []
                   | Some a \<Rightarrow> (case table_alignment a of
                                  None \<Rightarrow> []
                                | Some v \<Rightarrow> '' style="text-align: '' @ v @ '';"''))
      in ''<'' @ type @ style @ ''>'' @ inner @ ''</'' @ type @ ''>\<newline>'')\<close>

definition table_body_markup :: "bool \<Rightarrow> string \<Rightarrow> string" where
  \<open>table_body_markup header inner =
     (let type = (if header then ''thead'' else ''tbody'')
      in ''<'' @ type @ ''>\<newline>'' @ inner @ ''</'' @ type @ ''>\<newline>'')\<close>

definition render_include :: "renderer \<Rightarrow> string \<Rightarrow> error + string" where
  "render_include self ident =
     (case include_handler self of
        None \<Rightarrow> Inl TypeError
      | Some f \<Rightarrow> Inr (f ident))"

definition render_formula :: "string \<Rightarrow> string" where
  \<open>render_formula formula = ''\<newline>$$'' @ formula @ ''$$\<newline>''\<close>

text \<open>The category that \<open>render_tag\<close> hands to the margin template.\<close>

definition tag_category :: "string \<Rightarrow> string" where
  "tag_category tagtype =
     (if tagtype = ''webmargin'' then ''margin''
      else if tagtype = ''webtip'' then ''tip''
      else if tagtype = ''webindepth'' then ''indepth''
      else tagtype)"

text \<open>The wrappers of the slide renderer's \<open>render_tag\<close> and \<open>render_slide_break\<close>.\<close>

definition slide_tag_markup :: "string \<Rightarrow> string \<Rightarrow> string" where
  \<open>slide_tag_markup tagtype inner =
     (if tagtype = ''fragment'' then ''<div class="fragment">\<newline>'' @ inner @ ''\<newline></div>\<newline>''
      else if tagtype = ''left'' then ''<div id="left">\<newline>'' @ inner @ ''\<newline></div>\<newline>''
      else if tagtype = ''right'' then ''<div id="right">\<newline>'' @ inner @ ''\<newline></div>\<newline>''
      else ''<aside class="notes">\<newline>'' @ inner @ ''\<newline></aside>\<newline>'')\<close>

definition slide_break_markup :: "string option \<Rightarrow> string \<Rightarrow> string" where
  \<open>slide_break_markup attribute inner =
     (case attribute of
        None \<Rightarrow> ''<section>\<newline>'' @ inner @ ''\<newline></section>\<newline>''
      | Some a \<Rightarrow> ''<section '' @ a @ ''>\<newline>'' @ inner @ ''\<newline></section>\<newline>'')\<close>

text \<open>One turn of a dialogue, in the document and in the slide renderer.\<close>

definition qso_turn_markup :: "mode \<Rightarrow> bool \<Rightarrow> string \<Rightarrow> string" where
  \<open>qso_turn_markup m received inner =
     (let direction = (if received then ''other'' else ''own'')
      in case m of
           DocumentMode \<Rightarrow> ''<div class="qso_'' @ direction @ ''">'' @ inner @ ''</div>\<newline>''
         | SlideMode \<Rightarrow>
             (let fade = (if received then ''fragment fade-left'' else ''fragment fade-right'')
              in ''<div class="qso_'' @ direction @ '' '' @ fade @ ''">'' @ inner
                 @ ''</div>\<newline>''))\<close>

section \<open>The dispatcher and the rules with children\<close>

text \<open>
  A rule returns a fragment, or \<open>None\<close> for a token that is not to be rendered, and the
  renderer as the rule left it; an exception ends the rendering.
\<close>

type_synonym 'a result = "error + 'a \<times> renderer"

text \<open>
  The second half of \<open>render_inner\<close>: the results of the children that are not \<open>None\<close>,
  joined with \<open>base\<close>.
\<close>

definition join_children :: "string \<Rightarrow> (string option list) result \<Rightarrow> string result" where
  "join_children base res =
     (case res of
        Inl e \<Rightarrow> Inl e
      | Inr (outs, self') \<Rightarrow> Inr (join_str base (not_none outs), self'))"

text \<open>What a rule does with its rendered children and the renderer they left.\<close>

definition finish :: "string result \<Rightarrow> (string \<Rightarrow> renderer \<Rightarrow> string option) \<Rightarrow> (string option) result" where
  "finish res f =
     (case res of
        Inl e \<Rightarrow> Inl e
      | Inr (inner, self') \<Rightarrow> Inr (f inner self', self'))"

text \<open>
  The last statement of \<open>render_tag\<close> and \<open>render_qso\<close> in the document renderer, once the
  content is rendered: \<open>margin_id\<close> and \<open>margin_anchor_id\<close> are read from the renderer as the
  content left it.
\<close>

definition call_tag_helper :: "string result \<Rightarrow> string \<Rightarrow> (string option) result" where
  "call_tag_helper res type =
     (case res of
        Inl e \<Rightarrow> Inl e
      | Inr (content, self') \<Rightarrow>
          (case render_tag_helper self' type content (margin_id self') (margin_anchor_id self') of
             (fragment, self'') \<Rightarrow> Inr (Some fragment, self'')))"

definition leaf :: "renderer \<Rightarrow> error + string \<Rightarrow> (string option) result" where
  "leaf self res = (case res of Inl e \<Rightarrow> Inl e | Inr s \<Rightarrow> Inr (Some s, self))"

text \<open>
  \<open>render\<close> dispatches on the kind of the token; \<open>render_list\<close> is the list comprehension
  of \<open>render_inner\<close>, children in order; \<open>render_qso_turns\<close> is the loop of \<open>render_qso\<close>
  over the turns of a dialogue, which reads \<open>received\<close> of every child.

  Modelled from the spec: the dispatcher itself belongs to the base library. A kind that
  has no rule of this renderer (\<open>Other\<close>, a \<open>QsoTurn\<close> outside a dialogue, a \<open>SlideBreak\<close>
  in the document renderer) gets the generic default: its children rendered and joined
  with the empty separator.

  In \<open>render_tag\<close> of the document renderer the arguments of \<open>render_tag_helper\<close> are
  evaluated from left to right: the children are rendered first, then \<open>margin_id\<close> and
  \<open>margin_anchor_id\<close> are read. \<open>render_document\<close> also merges the footnotes of the
  document into those of the base renderer, which no rule here reads.
\<close>

fun render :: "renderer \<Rightarrow> token \<Rightarrow> (string option) result"
  and render_list :: "renderer \<Rightarrow> token list \<Rightarrow> (string option list) result"
  and render_qso_turns :: "renderer \<Rightarrow> token list \<Rightarrow> string \<Rightarrow> string result" where
  "render self (Token k cs) =
     (case k of
        Document \<Rightarrow>
          finish (join_children ''\<newline>'' (render_list self cs))
            (\<lambda>inner self'. Some (if inner \<noteq> [] then inner @ ''\<newline>'' else []))
      | Dash \<Rightarrow> Inr (Some render_dash, self)
      | BlockComment \<Rightarrow> Inr (None, self)
      | Quote \<Rightarrow>
          finish (join_children [] (render_list self cs))
            (\<lambda>inner self'. Some ([CHR 0xE2, CHR 0x80, CHR 0x9E] @ inner @ [CHR 0xE2, CHR 0x80, CHR 0x9C]))
      | Unit val prefix unit \<Rightarrow> Inr (Some (render_unit val prefix unit), self)
      | Underline \<Rightarrow>
          finish (join_children [] (render_list self cs))
            (\<lambda>inner self'. Some (''<u>'' @ inner @ ''</u>''))
      | Morse content \<Rightarrow> Inr (Some (render_morse self content), self)
      | Tag tagtype \<Rightarrow>
          (case mode self of
             DocumentMode \<Rightarrow>
               if tagtype = ''latexonly'' then Inr (Some [], self)
               else if tagtype = ''webonly'' then
                 finish (join_children [] (render_list self cs)) (\<lambda>inner self'. Some inner)
               else
                 call_tag_helper
                   (join_children [] (render_list (self\<lparr>margin_id := margin_id self + 1\<rparr>) cs))
                   (tag_category tagtype)
           | SlideMode \<Rightarrow>
               if tagtype \<in> set [''fragment'', ''left'', ''right'', ''note''] then
                 finish (join_children [] (render_list self cs))
                   (\<lambda>inner self'. Some (slide_tag_markup tagtype inner))
               else Inr (Some [], self))
      | Qso \<Rightarrow>
          (case mode self of
             DocumentMode \<Rightarrow>
               call_tag_helper (render_qso_turns (self\<lparr>margin_id := margin_id self + 1\<rparr>) cs [])
                 ''qso''
           | SlideMode \<Rightarrow>
               finish (render_qso_turns self cs ''<div class=\"qso r-fit-text\">\<newline>'')
                 (\<lambda>qso self'. Some (qso @ ''</div>\<newline>'')))
      | HalfwidthSpaces first second \<Rightarrow> Inr (Some (render_halfwidth_spaces first second), self)
      | NonbreakingSpaces first second \<Rightarrow> Inr (Some (render_nonbreaking_spaces first second), self)
      | NonbreakingSpacesDots first second third \<Rightarrow>
          leaf self (render_nonbreaking_spaces_dots first second third)
      | References first \<Rightarrow> Inr (Some (render_references self first), self)
      | Question question_number \<Rightarrow> leaf self (render_question self question_number)
      | Picture ident ref text number \<Rightarrow> Inr (Some (render_picture self ident ref text number), self)
      | Photo ident ref text number \<Rightarrow> Inr (Some (render_photo self ident ref text number), self)
      | Table name caption number \<Rightarrow>
          finish (join_children [] (render_list self cs))
            (\<lambda>inner self'. Some (table_markup name caption number inner))
      | TableHeader \<Rightarrow>
          finish (join_children [] (render_list self cs))
            (\<lambda>inner self'. Some (table_row_markup inner))
      | TableRow \<Rightarrow>
          finish (join_children [] (render_list self cs))
            (\<lambda>inner self'. Some (table_row_markup inner))
      | TableCell header alignment \<Rightarrow>
          finish (join_children [] (render_list self cs))
            (\<lambda>inner self'. Some (table_cell_markup header alignment inner))
      | TableBody header \<Rightarrow>
          if length cs = 0 then Inr (None, self)
          else finish (join_children [] (render_list self cs))
                 (\<lambda>inner self'. Some (table_body_markup header inner))
      | Include ident \<Rightarrow> leaf self (render_include self ident)
      | Formula formula \<Rightarrow> Inr (Some (render_formula formula), self)
      | ThematicBreak \<Rightarrow>
          (let self1 = self\<lparr>margin_anchor_id := margin_anchor_id self + 1\<rparr>
           in Inr (Some (''<a id=\"margin_'' @ str_nat (margin_anchor_id self1) @ ''\"></a>''), self1))
      | SlideBreak attribute \<Rightarrow>
          (case mode self of
             SlideMode \<Rightarrow>
               finish (join_children [] (render_list self cs))
                 (\<lambda>inner self'. Some (slide_break_markup attribute inner))
           | DocumentMode \<Rightarrow>
               finish (join_children [] (render_list self cs)) (\<lambda>inner self'. Some inner))
      | QsoTurn received \<Rightarrow>
          finish (join_children [] (render_list self cs)) (\<lambda>inner self'. Some inner)
      | Other \<Rightarrow>
          finish (join_children [] (render_list self cs)) (\<lambda>inner self'. Some inner))"
| "render_list self [] = Inr ([], self)"
| "render_list self (child # rest) =
     (case render self child of
        Inl e \<Rightarrow> Inl e
      | Inr (out, self1) \<Rightarrow>
          (case render_list self1 rest of
             Inl e \<Rightarrow> Inl e
           | Inr (outs, self2) \<Rightarrow> Inr (out # outs, self2)))"
| "render_qso_turns self [] qso = Inr (qso, self)"
| "render_qso_turns self (Token k cs # rest) qso =
     (case k of
        QsoTurn received \<Rightarrow>
          (case join_children [] (render_list self cs) of
             Inl e \<Rightarrow> Inl e
           | Inr (inner, self1) \<Rightarrow>
               render_qso_turns self1 rest (qso @ qso_turn_markup (mode self1) received inner))
      | _ \<Rightarrow> Inl AttributeError)"

text \<open>\<open>render_inner(token, base)\<close>.\<close>

definition render_inner :: "renderer \<Rightarrow> token \<Rightarrow> string \<Rightarrow> string result" where
  "render_inner self token base = join_children base (render_list self (children token))"

section \<open>Observing a tree\<close>

text \<open>
  The kinds of the tokens of a tree in pre-order (a token before its children, children
  from left to right), and those below the root, which are the tokens the numbering pass
  visits as a child.
\<close>

fun preorder :: "token \<Rightarrow> kind list" where
  "preorder (Token k cs) = k # concat (map preorder cs)"

definition descendants :: "token \<Rightarrow> kind list" where
  "descendants t = concat (map preorder (children t))"

text \<open>A figure-bearing token with a reference identifier that is neither absent nor empty.\<close>

definition numbered :: "kind \<Rightarrow> bool" where
  "numbered k = (is_figure k \<and> truthy (figure_ref_id k))"

definition unnumbered :: "kind \<Rightarrow> bool" where
  "unnumbered k = (is_figure k \<and> \<not> truthy (figure_ref_id k))"

text \<open>
  The numbers that \<open>n\<close> consecutive increments of the figure counter produce, starting
  from the counter value \<open>c\<close>, and the map keys that the numbered tokens of a list write.
\<close>

definition numbers_from :: "renderer \<Rightarrow> nat \<Rightarrow> nat \<Rightarrow> string option list" where
  "numbers_from self c n = map (\<lambda>i. Some (format_figure_number self i)) [c + 1 ..< c + 1 + n]"

definition numbered_keys :: "kind list \<Rightarrow> string set" where
  "numbered_keys ks = (\<lambda>k. py_str (figure_ref_id k)) ` {k \<in> set ks. numbered k}"

text \<open>The renderer, the environment and the document of the examples.\<close>

definition example_config :: config where
  "example_config =
     \<lparr> cfg_question_renderer = None,
       cfg_picture_handler = None,
       cfg_photo_handler = None,
       cfg_include_handler = None,
       cfg_edition = Some ''3'',
       cfg_chapter = Some ''2'',
       cfg_section = Some ''1'',
       cfg_section_url = None,
       cfg_margin_template = (\<lambda>type content mid anchor. ''<'' @ type @ '' '' @ str_nat mid @ ''>'' @ content),
       cfg_convert_to_morse_code = (\<lambda>content. []) \<rparr>"

definition example_document :: token where
  "example_document =
     Token Document
       [Token (Picture ''7'' (Some ''fig-a'') ''Dipol'' []) [],
        Token (Tag ''webmargin'')
          [Token (Photo ''8'' None ''Mast'' []) [],
           Token (Table (Some ''fig-b'') ''Werte'' None) [Token (TableBody False) []]],
        Token (Photo ''9'' (Some ''fig-c'') ''Station'' []) [],
        Token (References ''fig-b'') []]"

text \<open>A document renderer that has rendered one margin note and one thematic break.\<close>

definition used_renderer :: renderer where
  "used_renderer =
     (case render (FiftyOhmHtmlRenderer example_config)
             (Token Document [Token (Tag ''webmargin'') [], Token ThematicBreak []]) of
        Inr (out, self') \<Rightarrow> self'
      | Inl e \<Rightarrow> FiftyOhmHtmlRenderer example_config)"

text \<open>
  A renderer with the three fields that rendering writes set to fixed values: two
  renderers agree on every other field when their images agree.
\<close>

definition untouched :: "renderer \<Rightarrow> renderer" where
  "untouched s = s\<lparr>margin_id := 0, margin_anchor_id := 0, template_calls := []\<rparr>"

text \<open>
  The number of calls of \<open>render_tag_helper\<close> that the document renderer makes for a token
  when no rule raises: one for every Tag that is neither \<open>latexonly\<close> nor \<open>webonly\<close> and
  for every Qso, among the tokens that get rendered (the children of a \<open>latexonly\<close> Tag and
  of a token whose rule does not render its children are not).
\<close>

fun margin_nodes :: "token \<Rightarrow> nat"
  and margin_nodes_list :: "token list \<Rightarrow> nat"
  and margin_nodes_turns :: "token list \<Rightarrow> nat" where
  "margin_nodes (Token k cs) =
     (case k of
        Tag tagtype \<Rightarrow>
          if tagtype = ''latexonly'' then 0
          else if tagtype = ''webonly'' then margin_nodes_list cs
          else 1 + margin_nodes_list cs
      | Qso \<Rightarrow> 1 + margin_nodes_turns cs
      | Document \<Rightarrow> margin_nodes_list cs
      | Quote \<Rightarrow> margin_nodes_list cs
      | Underline \<Rightarrow> margin_nodes_list cs
      | Table name caption number \<Rightarrow> margin_nodes_list cs
      | TableHeader \<Rightarrow> margin_nodes_list cs
      | TableRow \<Rightarrow> margin_nodes_list cs
      | TableCell header alignment \<Rightarrow> margin_nodes_list cs
      | TableBody header \<Rightarrow> margin_nodes_list cs
      | QsoTurn received \<Rightarrow> margin_nodes_list cs
      | SlideBreak attribute \<Rightarrow> margin_nodes_list cs
      | Other \<Rightarrow> margin_nodes_list cs
      | _ \<Rightarrow> 0)"
| "margin_nodes_list [] = 0"
| "margin_nodes_list (child # rest) = margin_nodes child + margin_nodes_list rest"
| "margin_nodes_turns [] = 0"
| "margin_nodes_turns (Token k cs # rest) = margin_nodes_list cs + margin_nodes_turns rest"

text \<open>
  No such Tag or Qso inside another: every Tag that calls the template, and every Qso,
  has no call of the template among the tokens rendered below it.
\<close>

fun flat_margins :: "token \<Rightarrow> bool"
  and flat_margins_list :: "token list \<Rightarrow> bool" where
  "flat_margins (Token k cs) =
     (case k of
        Tag tagtype \<Rightarrow>
          if tagtype = ''latexonly'' then True
          else if tagtype = ''webonly'' then flat_margins_list cs
          else margin_nodes_list cs = 0
      | Qso \<Rightarrow> margin_nodes_turns cs = 0
      | Document \<Rightarrow> flat_margins_list cs
      | Quote \<Rightarrow> flat_margins_list cs
      | Underline \<Rightarrow> flat_margins_list cs
      | Table name caption number \<Rightarrow> flat_margins_list cs
      | TableHeader \<Rightarrow> flat_margins_list cs
      | TableRow \<Rightarrow> flat_margins_list cs
      | TableCell header alignment \<Rightarrow> flat_margins_list cs
      | TableBody header \<Rightarrow> flat_margins_list cs
      | QsoTurn received \<Rightarrow> flat_margins_list cs
      | SlideBreak attribute \<Rightarrow> flat_margins_list cs
      | Other \<Rightarrow> flat_margins_list cs
      | _ \<Rightarrow> True)"
| "flat_margins_list [] = True"
| "flat_margins_list (child # rest) = (flat_margins child \<and> flat_margins_list rest)"

text \<open>The \<open>id\<close> argument of a recorded call of \<open>render_tag_helper\<close>.\<close>

definition call_id :: "string \<times> string \<times> nat \<times> nat \<Rightarrow> nat" where
  "call_id call = fst (snd (snd call))"

text \<open>
  How rendering moves the margin counter and the record of the template calls: \<open>n\<close> calls
  are added, \<open>margin_id\<close> grows by \<open>n\<close>, and when \<open>consecutive\<close> holds the added calls carry
  the ids that follow the old \<open>margin_id\<close>, one after the other.
\<close>

definition margin_law :: "renderer \<Rightarrow> renderer \<Rightarrow> nat \<Rightarrow> bool \<Rightarrow> bool" where
  "margin_law s s' n consecutive =
     (margin_id s' = margin_id s + n
      \<and> (\<exists>new. template_calls s' = template_calls s @ new \<and> length new = n
            \<and> (consecutive \<longrightarrow> map call_id new = [margin_id s + 1 ..< margin_id s + 1 + n])))"

text \<open>A document with margin notes, a thematic break and a dialogue, none inside another.\<close>

definition example_margins :: token where
  "example_margins =
     Token Document
       [Token (Tag ''webmargin'') [Token Dash []],
        Token ThematicBreak [],
        Token Qso [Token (QsoTurn True) [Token Dash []]],
        Token (Tag ''latexonly'') [Token (Tag ''webtip'') []],
        Token (Tag ''webonly'') [Token (Tag ''webtip'') []]]"

text \<open>The fragment of a result; an exception has none.\<close>

definition fragment_of :: "(string option) result \<Rightarrow> string option" where
  "fragment_of res = (case res of Inl e \<Rightarrow> None | Inr (out, self') \<Rightarrow> out)"

section \<open>Units\<close>

text \<open>
  C9. A Unit token renders as its value, then a narrow no-break space unless the unit is
  the degree or the percent sign, then the prefix and the unit, where \<open>Ohm\<close> is replaced by
  the Greek capital omega and every other unit is kept. Value 5 with unit Ohm gives
  \<open>5&#8239;\<close> and the omega; value 10 with unit percent gives \<open>10%\<close>.
\<close>

theorem render_unit_format:
  "render self (Token (Unit val prefix unit) cs) =
     Inr (Some (val
                @ (if unit = [CHR 0xC2, CHR 0xB0] \<or> unit = ''%'' then [] else ''&#8239;'')
                @ prefix
                @ (if unit = ''Ohm'' then [CHR 0xCE, CHR 0xA9] else unit)), self)
   \<and> render self (Token (Unit ''5'' [] ''Ohm'') []) = Inr (Some (''5&#8239;'' @ [CHR 0xCE, CHR 0xA9]), self)
   \<and> render self (Token (Unit ''10'' [] ''%'') []) = Inr (Some ''10%'', self)"
  by (simp add: render_unit_def convert_unit_helper_def units_def)

theorem render_unit_format_witness:
  "render (FiftyOhmHtmlRenderer example_config) (Token (Unit ''47'' ''k'' ''Ohm'') []) =
     Inr (Some (''47&#8239;k'' @ [CHR 0xCE, CHR 0xA9]), FiftyOhmHtmlRenderer example_config)"
  using render_unit_format [of "FiftyOhmHtmlRenderer example_config" "''47''" "''k''" "''Ohm''" "[]"]
  by simp

section \<open>References\<close>

text \<open>
  C6. Rendering a Reference never raises. When its target is not a key of the figure map,
  the result is a hyperlink to the section URL followed by the anchor \<open>#ref_\<close> and the
  target, with the callback \<open>highlightRef\<close> on the target, and the link text is \<open>?\<close>; when
  the target is a key of the map, the link text is the number stored for it. The renderer
  is left as it was.
\<close>

theorem render_references_link:
  \<open>(first \<notin> dom (figure_map self) \<longrightarrow>
      render self (Token (References first) cs) =
        Inr (Some (''<a href="'' @ section_url self @ ''#ref_'' @ first
                   @ ''" onclick="highlightRef('' @ [CHR 0x27] @ first @ [CHR 0x27]
                   @ '');">?</a>''), self))
   \<and> (\<forall>number. figure_map self first = Some number \<longrightarrow>
      render self (Token (References first) cs) =
        Inr (Some (''<a href="'' @ section_url self @ ''#ref_'' @ first
                   @ ''" onclick="highlightRef('' @ [CHR 0x27] @ first @ [CHR 0x27]
                   @ '');">'' @ number @ ''</a>''), self))\<close>
  by (auto simp add: render_references_def dict_get_def dom_def)

theorem render_references_link_witness:
  \<open>render (FiftyOhmHtmlRenderer example_config) (Token (References ''p1'') []) =
     Inr (Some ''<a href="section.html#ref_p1" onclick="highlightRef('p1');">?</a>'',
          FiftyOhmHtmlRenderer example_config)
   \<and> render ((FiftyOhmHtmlRenderer example_config)\<lparr>figure_map := [''p1'' \<mapsto> ''3-2.1.1'']\<rparr>)
        (Token (References ''p1'') []) =
     Inr (Some ''<a href="section.html#ref_p1" onclick="highlightRef('p1');">3-2.1.1</a>'',
          (FiftyOhmHtmlRenderer example_config)\<lparr>figure_map := [''p1'' \<mapsto> ''3-2.1.1'']\<rparr>)\<close>
  using render_references_link [of "''p1''" "FiftyOhmHtmlRenderer example_config" "[]"]
    render_references_link [of "''p1''"
      "(FiftyOhmHtmlRenderer example_config)\<lparr>figure_map := [''p1'' \<mapsto> ''3-2.1.1'']\<rparr>" "[]"]
  by (simp add: FiftyOhmHtmlRenderer_def example_config_def)

section \<open>Pictures in the two renderers\<close>

text \<open>
  C7. For one Picture token and two renderers that differ in nothing but their class, the
  slide renderer writes the \<open>img\<close> element itself into the figure (its figure-link helper
  returns its text argument), and the document renderer writes there the same \<open>img\<close>
  element inside an \<open>a\<close> element that links to the asset URL. The \<open>figure\<close> element, its
  identifier and its caption are the same in both, and the two fragments differ.
\<close>

theorem render_picture_modes:
  \<open>render (self\<lparr>mode := SlideMode\<rparr>) (Token (Picture ident ref text number) cs) =
     Inr (Some (''\<newline>                <figure class="picture" id="ref_'' @ py_str ref
                @ ''" name="'' @ py_str ref @ ''">\<newline>                    ''
                @ ''\<newline>                <img src="pictures/'' @ ident @ ''.svg" alt="''
                @ (case picture_handler self of None \<Rightarrow> [] | Some h \<Rightarrow> py_str (h ident))
                @ ''">\<newline>                ''
                @ ''\<newline>                    <figcaption>Abbildung '' @ number @ '': '' @ text
                @ ''</figcaption>\<newline>                </figure>\<newline>                ''),
          self\<lparr>mode := SlideMode\<rparr>)
   \<and> render (self\<lparr>mode := DocumentMode\<rparr>) (Token (Picture ident ref text number) cs) =
     Inr (Some (''\<newline>                <figure class="picture" id="ref_'' @ py_str ref
                @ ''" name="'' @ py_str ref @ ''">\<newline>                    ''
                @ ''\<newline>                <a href="pictures/'' @ ident @ ''.svg">''
                @ ''\<newline>                <img src="pictures/'' @ ident @ ''.svg" alt="''
                @ (case picture_handler self of None \<Rightarrow> [] | Some h \<Rightarrow> py_str (h ident))
                @ ''">\<newline>                ''
                @ ''</a>\<newline>                ''
                @ ''\<newline>                    <figcaption>Abbildung '' @ number @ '': '' @ text
                @ ''</figcaption>\<newline>                </figure>\<newline>                ''),
          self\<lparr>mode := DocumentMode\<rparr>)
   \<and> fragment_of (render (self\<lparr>mode := SlideMode\<rparr>) (Token (Picture ident ref text number) cs))
       \<noteq> fragment_of (render (self\<lparr>mode := DocumentMode\<rparr>) (Token (Picture ident ref text number) cs))
   \<and> render_figure_link_helper SlideMode url img_text = img_text
   \<and> render_figure_link_helper DocumentMode url img_text =
       ''\<newline>                <a href="'' @ url @ ''">'' @ img_text @ ''</a>\<newline>                ''\<close>
  by (simp add: render_picture_def render_figure_link_helper_def render_figure_helper_def
      render_img_helper_def fragment_of_def Let_def)

theorem render_picture_modes_witness:
  \<open>render (FiftyOhmHtmlSlideRenderer example_config) (Token (Picture ''7'' (Some ''p1'') ''Dipol'' ''3S-2.1.1'') []) =
     Inr (Some (''\<newline>                <figure class="picture" id="ref_p1" name="p1">\<newline>                    ''
                @ ''\<newline>                <img src="pictures/7.svg" alt="">\<newline>                ''
                @ ''\<newline>                    <figcaption>Abbildung 3S-2.1.1: Dipol</figcaption>\<newline>                </figure>\<newline>                ''),
          FiftyOhmHtmlSlideRenderer example_config)
   \<and> render (FiftyOhmHtmlRenderer example_config) (Token (Picture ''7'' (Some ''p1'') ''Dipol'' ''3S-2.1.1'') []) =
     Inr (Some (''\<newline>                <figure class="picture" id="ref_p1" name="p1">\<newline>                    ''
                @ ''\<newline>                <a href="pictures/7.svg">''
                @ ''\<newline>                <img src="pictures/7.svg" alt="">\<newline>                ''
                @ ''</a>\<newline>                ''
                @ ''\<newline>                    <figcaption>Abbildung 3S-2.1.1: Dipol</figcaption>\<newline>                </figure>\<newline>                ''),
          FiftyOhmHtmlRenderer example_config)\<close>
  using render_picture_modes [of "FiftyOhmHtmlSlideRenderer example_config" "''7''" "Some ''p1''"
      "''Dipol''" "''3S-2.1.1''" "[]" "[]" "[]"]
    render_picture_modes [of "FiftyOhmHtmlRenderer example_config" "''7''" "Some ''p1''"
      "''Dipol''" "''3S-2.1.1''" "[]" "[]" "[]"]
  by (simp add: FiftyOhmHtmlSlideRenderer_def FiftyOhmHtmlRenderer_def example_config_def Let_def)

section \<open>The numbering pass\<close>

subsection \<open>What the pass leaves alone, and what one child does to the renderer\<close>

lemma frame_refl: "\<exists>c m. (s::renderer) = s\<lparr>figure_counter := c, figure_map := m\<rparr>"
  by (rule exI[of _ "figure_counter s"], rule exI[of _ "figure_map s"]) simp

lemma number_child_frame:
  "number_child self k = (self', k') \<Longrightarrow>
     \<exists>c m. self' = self\<lparr>figure_counter := c, figure_map := m\<rparr>"
  unfolding number_child_def Let_def
  by (auto split: if_splits option.splits simp: frame_refl)

lemma collect_frame:
  "collect_figures_recursive self t = (self', t') \<Longrightarrow>
     \<exists>c m. self' = self\<lparr>figure_counter := c, figure_map := m\<rparr>"
  "collect_children self cs = (self', cs') \<Longrightarrow>
     \<exists>c m. self' = self\<lparr>figure_counter := c, figure_map := m\<rparr>"
proof (induction self t and self cs arbitrary: self' t' and self' cs'
    rule: collect_figures_recursive_collect_children.induct)
  case (1 self k cs)
  then show ?case by (auto split: prod.splits)
next
  case (2 self)
  then show ?case by (simp add: frame_refl)
next
  case (3 self k cs rest)
  obtain self1 k1 where a: "number_child self k = (self1, k1)" by force
  obtain self2 child where b: "collect_figures_recursive self1 (Token k1 cs) = (self2, child)" by force
  obtain self3 rest1 where c: "collect_children self2 rest = (self3, rest1)" by force
  from a b c "3.prems" have s: "self' = self3" by simp
  from number_child_frame[OF a] obtain c1 m1 where 1: "self1 = self\<lparr>figure_counter := c1, figure_map := m1\<rparr>" by blast
  from "3.IH"(1)[OF a[symmetric] b] obtain c2 m2 where 2: "self2 = self1\<lparr>figure_counter := c2, figure_map := m2\<rparr>" by blast
  from "3.IH"(2)[OF a[symmetric] b[symmetric] c] obtain c3 m3 where 3: "self3 = self2\<lparr>figure_counter := c3, figure_map := m3\<rparr>" by blast
  show ?case unfolding s 1 2 3 by (intro exI[of _ c3] exI[of _ m3]) simp
qed

lemma format_frame [simp]:
  "format_figure_number (self\<lparr>figure_counter := c, figure_map := m\<rparr>) = format_figure_number self"
  by (rule ext) (simp add: format_figure_number_def)

lemma numbered_set_number [simp]: "numbered (set_number s k) = numbered k"
  by (cases k) (simp_all add: numbered_def figure_ref_id_def)

lemma unnumbered_set_number [simp]: "unnumbered (set_number s k) = unnumbered k"
  by (cases k) (simp_all add: unnumbered_def figure_ref_id_def)

lemma number_child_numbered:
  "numbered k \<Longrightarrow> number_child self k =
     (self\<lparr>figure_counter := figure_counter self + 1,
           figure_map := (figure_map self)(py_str (figure_ref_id k) \<mapsto> format_figure_number self (figure_counter self + 1))\<rparr>,
      set_number (format_figure_number self (figure_counter self + 1)) k)"
  unfolding number_child_def numbered_def Let_def
  by (cases "figure_ref_id k") (auto simp: format_figure_number_def)

lemma number_child_unnumbered:
  "unnumbered k \<Longrightarrow> number_child self k = (self, set_number [] k)"
  unfolding number_child_def unnumbered_def
  by (cases "figure_ref_id k") auto

lemma number_child_other:
  "\<not> is_figure k \<Longrightarrow> number_child self k = (self, k)"
  unfolding number_child_def by simp

lemma attr_number_set_number: "is_figure k \<Longrightarrow> attr_number (set_number s k) = Some s"
  by (cases k) simp_all

subsection \<open>Numbers in pre-order\<close>

lemma numbers_from_append:
  "numbers_from self c (m + n) = numbers_from self c m @ numbers_from self (c + m) n"
proof -
  have "[c + 1 ..< (c + 1 + m) + n] = [c + 1 ..< c + 1 + m] @ [c + 1 + m ..< (c + 1 + m) + n]"
    by (rule upt_add_eq_append) simp
  moreover have "(c + 1 + m) + n = c + 1 + (m + n)" "c + 1 + m = c + m + 1" by simp_all
  ultimately have "[c + 1 ..< c + 1 + (m + n)] = [c + 1 ..< c + 1 + m] @ [c + m + 1 ..< c + m + 1 + n]"
    by metis
  then show ?thesis unfolding numbers_from_def by (simp only: map_append)
qed

lemma numbers_from_Suc:
  "numbers_from self c (Suc n) = Some (format_figure_number self (c + 1)) # numbers_from self (c + 1) n"
proof -
  have "numbers_from self c 1 = [Some (format_figure_number self (c + 1))]"
    by (simp add: numbers_from_def)
  with numbers_from_append[of self c 1 n] show ?thesis by simp
qed

lemma numbers_from_frame [simp]:
  "numbers_from (self\<lparr>figure_counter := c', figure_map := m\<rparr>) c n = numbers_from self c n"
  by (simp add: numbers_from_def)

lemma collect_kind:
  "collect_figures_recursive self t = (self', t') \<Longrightarrow> kind_of t' = kind_of t"
  by (cases t) (auto split: prod.splits)

lemma descendants_Token [simp]: "descendants (Token k cs) = concat (map preorder cs)"
  by (simp add: descendants_def)

lemma collect_numbers:
  "collect_figures_recursive self t = (self', t') \<Longrightarrow>
     map attr_number (filter numbered (descendants t')) =
       numbers_from self (figure_counter self) (length (filter numbered (descendants t)))
     \<and> figure_counter self' = figure_counter self + length (filter numbered (descendants t))"
  "collect_children self cs = (self', cs') \<Longrightarrow>
     map attr_number (filter numbered (concat (map preorder cs'))) =
       numbers_from self (figure_counter self) (length (filter numbered (concat (map preorder cs))))
     \<and> figure_counter self' = figure_counter self + length (filter numbered (concat (map preorder cs)))"
proof (induction self t and self cs arbitrary: self' t' and self' cs'
    rule: collect_figures_recursive_collect_children.induct)
  case (1 self k cs)
  then show ?case by (auto split: prod.splits)
next
  case (2 self)
  then show ?case by (simp add: numbers_from_def)
next
  case (3 self k cs rest)
  obtain self1 k1 where a: "number_child self k = (self1, k1)" by force
  obtain self2 child where b: "collect_figures_recursive self1 (Token k1 cs) = (self2, child)" by force
  obtain self3 rest1 where c: "collect_children self2 rest = (self3, rest1)" by force
  from a b c "3.prems" have s: "self' = self3" "cs' = child # rest1" by simp_all
  obtain cs1 where child: "child = Token k1 cs1"
    using collect_kind[OF b] by (cases child) simp
  note ih1 = "3.IH"(1)[OF a[symmetric] b, unfolded child, simplified]
  note ih2 = "3.IH"(2)[OF a[symmetric] b[symmetric] c]
  from number_child_frame[OF a] obtain c1 m1 where f1: "self1 = self\<lparr>figure_counter := c1, figure_map := m1\<rparr>" by blast
  from collect_frame(1)[OF b] obtain c2 m2 where f2: "self2 = self1\<lparr>figure_counter := c2, figure_map := m2\<rparr>" by blast
  have n1: "numbers_from self1 = numbers_from self" unfolding f1 by (intro ext) simp
  have n2: "numbers_from self2 = numbers_from self" unfolding f2 f1 by (intro ext) simp
  show ?case
  proof (cases "numbered k")
    case True
    from number_child_numbered[OF True, of self] a
    have k1: "k1 = set_number (format_figure_number self (figure_counter self + 1)) k"
      and c1: "figure_counter self1 = figure_counter self + 1" by auto
    from True have fig: "is_figure k" by (simp add: numbered_def)
    show ?thesis
      using ih1 ih2 True
      by (simp add: s child k1 c1 n1 n2 attr_number_set_number[OF fig] numbers_from_Suc numbers_from_append)
  next
    case False
    have "self1 = self \<and> numbered k1 = numbered k"
    proof (cases "is_figure k")
      case True
      with False have "unnumbered k" by (simp add: numbered_def unnumbered_def)
      from number_child_unnumbered[OF this, of self] a show ?thesis by auto
    next
      case False
      from number_child_other[OF this, of self] a show ?thesis by auto
    qed
    then show ?thesis
      using ih1 ih2 False
      by (simp add: s child n2 numbers_from_append)
  qed
qed

subsection \<open>Tokens without a number, and the keys of the figure map\<close>

lemma set_number_idem [simp]: "set_number a (set_number b k) = set_number a k"
  by (cases k) simp_all

lemma number_child_erase:
  "number_child self k = (self', k') \<Longrightarrow> set_number [] k' = set_number [] k"
  unfolding number_child_def Let_def
  by (auto split: if_splits option.splits)

lemma number_child_cases:
  "number_child self k = (self', k') \<Longrightarrow>
     (numbered k \<and> numbered k' \<and> self' = self\<lparr>figure_counter := figure_counter self + 1,
           figure_map := (figure_map self)(py_str (figure_ref_id k) \<mapsto> format_figure_number self (figure_counter self + 1))\<rparr>)
     \<or> (unnumbered k \<and> unnumbered k' \<and> self' = self \<and> attr_number k' = Some [])
     \<or> (\<not> is_figure k \<and> self' = self \<and> k' = k)"
proof (cases "is_figure k")
  case False
  assume "number_child self k = (self', k')"
  with number_child_other[OF False, of self] False show ?thesis by auto
next
  case True
  assume a: "number_child self k = (self', k')"
  show ?thesis
  proof (cases "numbered k")
    case True
    with number_child_numbered[OF True, of self] a show ?thesis by auto
  next
    case False
    with True have u: "unnumbered k" by (simp add: numbered_def unnumbered_def)
    with number_child_unnumbered[OF u, of self] a True show ?thesis
      by (auto simp: attr_number_set_number)
  qed
qed

lemma collect_shape:
  "collect_figures_recursive self t = (self', t') \<Longrightarrow>
     map (set_number []) (preorder t') = map (set_number []) (preorder t)"
  "collect_children self cs = (self', cs') \<Longrightarrow>
     map (set_number []) (concat (map preorder cs')) = map (set_number []) (concat (map preorder cs))"
proof (induction self t and self cs arbitrary: self' t' and self' cs'
    rule: collect_figures_recursive_collect_children.induct)
  case (1 self k cs)
  then show ?case by (auto split: prod.splits)
next
  case (2 self)
  then show ?case by simp
next
  case (3 self k cs rest)
  obtain self1 k1 where a: "number_child self k = (self1, k1)" by force
  obtain self2 child where b: "collect_figures_recursive self1 (Token k1 cs) = (self2, child)" by force
  obtain self3 rest1 where c: "collect_children self2 rest = (self3, rest1)" by force
  from a b c "3.prems" have s: "self' = self3" "cs' = child # rest1" by simp_all
  note ih1 = "3.IH"(1)[OF a[symmetric] b]
  note ih2 = "3.IH"(2)[OF a[symmetric] b[symmetric] c]
  show ?case using ih1 ih2 number_child_erase[OF a] by (simp add: s)
qed

lemma collect_unnumbered:
  "collect_figures_recursive self t = (self', t') \<Longrightarrow>
     \<forall>k \<in> set (descendants t'). unnumbered k \<longrightarrow> attr_number k = Some []"
  "collect_children self cs = (self', cs') \<Longrightarrow>
     \<forall>k \<in> set (concat (map preorder cs')). unnumbered k \<longrightarrow> attr_number k = Some []"
proof (induction self t and self cs arbitrary: self' t' and self' cs'
    rule: collect_figures_recursive_collect_children.induct)
  case (1 self k cs)
  then show ?case by (auto split: prod.splits)
next
  case (2 self)
  then show ?case by simp
next
  case (3 self k cs rest)
  obtain self1 k1 where a: "number_child self k = (self1, k1)" by force
  obtain self2 child where b: "collect_figures_recursive self1 (Token k1 cs) = (self2, child)" by force
  obtain self3 rest1 where c: "collect_children self2 rest = (self3, rest1)" by force
  from a b c "3.prems" have s: "self' = self3" "cs' = child # rest1" by simp_all
  obtain cs1 where child: "child = Token k1 cs1"
    using collect_kind[OF b] by (cases child) simp
  note ih1 = "3.IH"(1)[OF a[symmetric] b, unfolded child, simplified]
  note ih2 = "3.IH"(2)[OF a[symmetric] b[symmetric] c]
  from number_child_cases[OF a] have "unnumbered k1 \<longrightarrow> attr_number k1 = Some []"
    by (auto simp: numbered_def unnumbered_def)
  with ih1 ih2 show ?case by (auto simp: s child)
qed

lemma numbered_keys_simps [simp]:
  "numbered_keys [] = {}"
  "numbered_keys (k # ks) = (if numbered k then {py_str (figure_ref_id k)} else {}) \<union> numbered_keys ks"
  "numbered_keys (xs @ ys) = numbered_keys xs \<union> numbered_keys ys"
  by (auto simp: numbered_keys_def)

lemma collect_dom:
  "collect_figures_recursive self t = (self', t') \<Longrightarrow>
     dom (figure_map self') = dom (figure_map self) \<union> numbered_keys (descendants t)"
  "collect_children self cs = (self', cs') \<Longrightarrow>
     dom (figure_map self') = dom (figure_map self) \<union> numbered_keys (concat (map preorder cs))"
proof (induction self t and self cs arbitrary: self' t' and self' cs'
    rule: collect_figures_recursive_collect_children.induct)
  case (1 self k cs)
  then show ?case by (auto split: prod.splits)
next
  case (2 self)
  then show ?case by simp
next
  case (3 self k cs rest)
  obtain self1 k1 where a: "number_child self k = (self1, k1)" by force
  obtain self2 child where b: "collect_figures_recursive self1 (Token k1 cs) = (self2, child)" by force
  obtain self3 rest1 where c: "collect_children self2 rest = (self3, rest1)" by force
  from a b c "3.prems" have s: "self' = self3" "cs' = child # rest1" by simp_all
  note ih1 = "3.IH"(1)[OF a[symmetric] b, simplified]
  note ih2 = "3.IH"(2)[OF a[symmetric] b[symmetric] c]
  from number_child_cases[OF a]
  have "dom (figure_map self1) = dom (figure_map self) \<union> (if numbered k then {py_str (figure_ref_id k)} else {})"
    by (auto simp: numbered_def unnumbered_def)
  with ih1 ih2 show ?case by (auto simp: s)
qed

lemma numbered_key_nonempty: "numbered k \<Longrightarrow> py_str (figure_ref_id k) \<noteq> []"
  by (cases "figure_ref_id k") (auto simp: numbered_def)

subsection \<open>The example document\<close>

lemma example_collected:
  "snd (collect_figures (FiftyOhmHtmlRenderer example_config) example_document) =
     Token Document
       [Token (Picture ''7'' (Some ''fig-a'') ''Dipol'' ''3-2.1.1'') [],
        Token (Tag ''webmargin'')
          [Token (Photo ''8'' None ''Mast'' []) [],
           Token (Table (Some ''fig-b'') ''Werte'' (Some ''3-2.1.2'')) [Token (TableBody False) []]],
        Token (Photo ''9'' (Some ''fig-c'') ''Station'' ''3-2.1.3'') [],
        Token (References ''fig-b'') []]"
  by (simp add: collect_figures_def number_child_def figure_ref_id_def py_or_def
      format_figure_number_def FiftyOhmHtmlRenderer_def example_config_def example_document_def
      Let_def str_nat.simps digit_char_def)

lemma example_descendants:
  "filter numbered (descendants example_document) =
     [Picture ''7'' (Some ''fig-a'') ''Dipol'' [], Table (Some ''fig-b'') ''Werte'' None,
      Photo ''9'' (Some ''fig-c'') ''Station'' []]"
  by (simp add: example_document_def descendants_def numbered_def figure_ref_id_def py_or_def)

subsection \<open>The order of the numbers\<close>

text \<open>
  C4. The numbering pass changes nothing of the tokens below the root but their numbers.
  Listed in pre-order, the figure-bearing tokens with a non-empty reference identifier
  carry the numbers formatted from the counter values 1, 2, ..., n, where n is how many
  there are, and n is the value of the figure counter after the pass. So of two numbered
  figures, the one that comes earlier in pre-order got the strictly smaller counter value.
\<close>

theorem collect_figures_preorder:
  "map (set_number []) (descendants (snd (collect_figures self doc))) = map (set_number []) (descendants doc)
   \<and> map attr_number (filter numbered (descendants (snd (collect_figures self doc)))) =
       map (\<lambda>i. Some (format_figure_number self i)) [1 ..< Suc (length (filter numbered (descendants doc)))]
   \<and> figure_counter (fst (collect_figures self doc)) = length (filter numbered (descendants doc))
   \<and> (\<forall>i j. i < j \<and> j < length (filter numbered (descendants doc)) \<longrightarrow>
         map attr_number (filter numbered (descendants (snd (collect_figures self doc)))) ! i
           = Some (format_figure_number self (Suc i))
       \<and> map attr_number (filter numbered (descendants (snd (collect_figures self doc)))) ! j
           = Some (format_figure_number self (Suc j))
       \<and> Suc i < Suc j)"
proof -
  let ?self0 = "self\<lparr>figure_counter := 0, figure_map := Map.empty\<rparr>"
  let ?n = "length (filter numbered (descendants doc))"
  let ?nums = "map attr_number (filter numbered (descendants (snd (collect_figures self doc))))"
  have run: "collect_figures_recursive ?self0 doc =
      (fst (collect_figures self doc), snd (collect_figures self doc))"
    by (simp add: collect_figures_def)
  have shape: "map (set_number []) (descendants (snd (collect_figures self doc))) = map (set_number []) (descendants doc)"
    using collect_shape(1)[OF run] by (cases doc; cases "snd (collect_figures self doc)") (simp add: descendants_def)
  from collect_numbers(1)[OF run]
  have nums: "?nums = map (\<lambda>i. Some (format_figure_number self i)) [1 ..< Suc ?n]"
    and cnt: "figure_counter (fst (collect_figures self doc)) = ?n"
    by (simp_all add: numbers_from_def)
  have nth: "?nums ! i = Some (format_figure_number self (Suc i))" if "i < ?n" for i
    using that unfolding nums by (simp del: upt_Suc)
  from shape nums cnt nth show ?thesis by (intro conjI allI impI) auto
qed

theorem collect_figures_preorder_witness:
  "map attr_number (filter numbered (descendants
      (snd (collect_figures (FiftyOhmHtmlRenderer example_config) example_document)))) ! 0 = Some ''3-2.1.1''
   \<and> map attr_number (filter numbered (descendants
      (snd (collect_figures (FiftyOhmHtmlRenderer example_config) example_document)))) ! 1 = Some ''3-2.1.2''
   \<and> figure_counter (fst (collect_figures (FiftyOhmHtmlRenderer example_config) example_document)) = 3"
proof -
  have n: "length (filter numbered (descendants example_document)) = 3"
    by (simp add: example_descendants)
  have f: "format_figure_number (FiftyOhmHtmlRenderer example_config) (Suc 0) = ''3-2.1.1''"
    "format_figure_number (FiftyOhmHtmlRenderer example_config) (Suc 1) = ''3-2.1.2''"
    by (simp_all add: format_figure_number_def FiftyOhmHtmlRenderer_def example_config_def
        str_nat.simps digit_char_def)
  note t = collect_figures_preorder [of "FiftyOhmHtmlRenderer example_config" example_document]
  from t have "figure_counter (fst (collect_figures (FiftyOhmHtmlRenderer example_config) example_document)) = 3"
    by (simp only: n)
  moreover have "(0::nat) < 1 \<and> 1 < length (filter numbered (descendants example_document))"
    by (simp add: n)
  with t [THEN conjunct2, THEN conjunct2, THEN conjunct2, rule_format, of 0 1]
  have "map attr_number (filter numbered (descendants
      (snd (collect_figures (FiftyOhmHtmlRenderer example_config) example_document)))) ! 0 = Some ''3-2.1.1''
   \<and> map attr_number (filter numbered (descendants
      (snd (collect_figures (FiftyOhmHtmlRenderer example_config) example_document)))) ! 1 = Some ''3-2.1.2''"
    by (simp only: f)
  ultimately show ?thesis by simp
qed

subsection \<open>Figures without a reference identifier\<close>

lemma unnumbered_kinds:
  "unnumbered (Picture i r t n) = (\<not> truthy r)"
  "unnumbered (Photo i r t n) = (\<not> truthy r)"
  "unnumbered (Table nm c num) = (\<not> truthy nm)"
  by (simp_all add: unnumbered_def figure_ref_id_def py_or_def)

text \<open>
  C5. A Picture or Photo whose \<open>ref\<close>, or a Table whose \<open>name\<close>, is absent or empty is
  given the empty string as its number, and the renderer is left as it was: no entry is
  added to the figure map and the counter is not incremented. After the whole pass every
  such token below the root carries the empty number, the keys of the figure map are
  exactly the reference identifiers of the numbered figures (the empty string is never a
  key), and the counter is the number of numbered figures.
\<close>

theorem collect_figures_unnumbered:
  "(unnumbered k \<longrightarrow>
      number_child self k = (self, set_number [] k) \<and> attr_number (set_number [] k) = Some [])
   \<and> unnumbered (Picture i r t n) = (\<not> truthy r)
   \<and> unnumbered (Photo i r t n) = (\<not> truthy r)
   \<and> unnumbered (Table nm c num) = (\<not> truthy nm)
   \<and> map (set_number []) (descendants (snd (collect_figures self doc))) = map (set_number []) (descendants doc)
   \<and> (\<forall>k' \<in> set (descendants (snd (collect_figures self doc))). unnumbered k' \<longrightarrow> attr_number k' = Some [])
   \<and> dom (figure_map (fst (collect_figures self doc))) = numbered_keys (descendants doc)
   \<and> [] \<notin> dom (figure_map (fst (collect_figures self doc)))
   \<and> figure_counter (fst (collect_figures self doc)) = length (filter numbered (descendants doc))"
proof -
  let ?self0 = "self\<lparr>figure_counter := 0, figure_map := Map.empty\<rparr>"
  have run: "collect_figures_recursive ?self0 doc =
      (fst (collect_figures self doc), snd (collect_figures self doc))"
    by (simp add: collect_figures_def)
  have local: "unnumbered k \<longrightarrow>
      number_child self k = (self, set_number [] k) \<and> attr_number (set_number [] k) = Some []"
    by (auto simp: number_child_unnumbered unnumbered_def attr_number_set_number)
  have shape: "map (set_number []) (descendants (snd (collect_figures self doc))) = map (set_number []) (descendants doc)"
    using collect_shape(1)[OF run] by (cases doc; cases "snd (collect_figures self doc)") (simp add: descendants_def)
  have un: "\<forall>k' \<in> set (descendants (snd (collect_figures self doc))). unnumbered k' \<longrightarrow> attr_number k' = Some []"
    using collect_unnumbered(1)[OF run] .
  have d: "dom (figure_map (fst (collect_figures self doc))) = numbered_keys (descendants doc)"
    using collect_dom(1)[OF run] by simp
  have e: "[] \<notin> dom (figure_map (fst (collect_figures self doc)))"
    unfolding d numbered_keys_def using numbered_key_nonempty by force
  have cnt: "figure_counter (fst (collect_figures self doc)) = length (filter numbered (descendants doc))"
    using collect_numbers(1)[OF run] by simp
  from local shape un d e cnt show ?thesis
    by (simp only: unnumbered_kinds simp_thms)
qed

theorem collect_figures_unnumbered_witness:
  "number_child (FiftyOhmHtmlRenderer example_config) (Photo ''8'' None ''Mast'' ''x'') =
     (FiftyOhmHtmlRenderer example_config, Photo ''8'' None ''Mast'' [])
   \<and> attr_number (Photo ''8'' None ''Mast'' []) = Some []
   \<and> Photo ''8'' None ''Mast'' [] \<in> set (descendants
        (snd (collect_figures (FiftyOhmHtmlRenderer example_config) example_document)))
   \<and> ''None'' \<notin> dom (figure_map (fst (collect_figures (FiftyOhmHtmlRenderer example_config) example_document)))
   \<and> figure_counter (fst (collect_figures (FiftyOhmHtmlRenderer example_config) example_document)) = 3"
proof -
  note t = collect_figures_unnumbered [of "Photo ''8'' None ''Mast'' ''x''"
      "FiftyOhmHtmlRenderer example_config" "''8''" None "''Mast''" "''x''" None "[]" None example_document]
  have u: "unnumbered (Photo ''8'' None ''Mast'' ''x'')" by (simp add: unnumbered_kinds)
  from t u have a: "number_child (FiftyOhmHtmlRenderer example_config) (Photo ''8'' None ''Mast'' ''x'') =
     (FiftyOhmHtmlRenderer example_config, Photo ''8'' None ''Mast'' [])
     \<and> attr_number (Photo ''8'' None ''Mast'' []) = Some []" by simp
  have m: "Photo ''8'' None ''Mast'' [] \<in> set (descendants
        (snd (collect_figures (FiftyOhmHtmlRenderer example_config) example_document)))"
    by (simp add: example_collected descendants_def)
  from t have "dom (figure_map (fst (collect_figures (FiftyOhmHtmlRenderer example_config) example_document)))
      = numbered_keys (descendants example_document)" by blast
  then have d: "''None'' \<notin> dom (figure_map (fst (collect_figures (FiftyOhmHtmlRenderer example_config) example_document)))"
    by (simp add: example_document_def descendants_def numbered_def figure_ref_id_def py_or_def)
  from t have "figure_counter (fst (collect_figures (FiftyOhmHtmlRenderer example_config) example_document))
     = length (filter numbered (descendants example_document))" by blast
  then have c: "figure_counter (fst (collect_figures (FiftyOhmHtmlRenderer example_config) example_document)) = 3"
    by (simp add: example_descendants)
  from a m d c show ?thesis by blast
qed

subsection \<open>The format of a number\<close>

text \<open>
  C3, as the specification states it, fails: an edition that is present but empty is not
  written into the number. With the edition \<open>""\<close>, chapter \<open>"2"\<close> and section \<open>"1"\<close>
  the first figure gets the bare \<open>1\<close>, not \<open>-2.1.1\<close>.
\<close>

theorem figure_number_empty_edition_counterexample:
  "edition ((FiftyOhmHtmlRenderer example_config)\<lparr>edition := Some []\<rparr>) = Some []
   \<and> snd (collect_figures ((FiftyOhmHtmlRenderer example_config)\<lparr>edition := Some []\<rparr>)
           (Token Document [Token (Picture ''7'' (Some ''fig-a'') ''Dipol'' []) []])) =
       Token Document [Token (Picture ''7'' (Some ''fig-a'') ''Dipol'' ''1'') []]
   \<and> ''1'' \<noteq> [] @ ''-'' @ ''2'' @ ''.'' @ ''1'' @ ''.'' @ ''1''"
  by (simp add: collect_figures_def number_child_def figure_ref_id_def py_or_def
      format_figure_number_def FiftyOhmHtmlRenderer_def example_config_def
      Let_def str_nat.simps digit_char_def)

text \<open>
  C3, amended. The numbered figures below the root, in pre-order, get
  \<open>{edition}-{chapter}.{section}.{counter}\<close> for the counter values 1, 2, ... when
  edition, chapter and section of the renderer are all present and not empty, and the
  bare counter when one of them is absent or empty. With the context 3, 2, 1 the third
  numbered figure of a document gets \<open>3-2.1.3\<close>.
\<close>

theorem figure_number_format:
  "(\<forall>e c s. edition self = Some e \<and> e \<noteq> [] \<and> chapter' self = Some c \<and> c \<noteq> []
        \<and> section' self = Some s \<and> s \<noteq> [] \<longrightarrow>
      map attr_number (filter numbered (descendants (snd (collect_figures self doc)))) =
        map (\<lambda>i. Some (e @ ''-'' @ c @ ''.'' @ s @ ''.'' @ str_nat i))
          [1 ..< Suc (length (filter numbered (descendants doc)))])
   \<and> (\<not> (truthy (edition self) \<and> truthy (chapter' self) \<and> truthy (section' self)) \<longrightarrow>
      map attr_number (filter numbered (descendants (snd (collect_figures self doc)))) =
        map (\<lambda>i. Some (str_nat i)) [1 ..< Suc (length (filter numbered (descendants doc)))])"
proof -
  let ?self0 = "self\<lparr>figure_counter := 0, figure_map := Map.empty\<rparr>"
  let ?n = "length (filter numbered (descendants doc))"
  let ?nums = "map attr_number (filter numbered (descendants (snd (collect_figures self doc))))"
  have run: "collect_figures_recursive ?self0 doc =
      (fst (collect_figures self doc), snd (collect_figures self doc))"
    by (simp add: collect_figures_def)
  from collect_numbers(1)[OF run]
  have nums: "?nums = map (\<lambda>i. Some (format_figure_number self i)) [1 ..< Suc ?n]"
    by (simp add: numbers_from_def)
  show ?thesis unfolding nums by (auto simp: format_figure_number_def)
qed

theorem figure_number_format_witness:
  "map attr_number (filter numbered (descendants
      (snd (collect_figures (FiftyOhmHtmlRenderer example_config) example_document)))) ! 2 = Some ''3-2.1.3''
   \<and> map attr_number (filter numbered (descendants
      (snd (collect_figures ((FiftyOhmHtmlRenderer example_config)\<lparr>section' := None\<rparr>) example_document)))) ! 2
        = Some ''3''"
proof -
  have n: "[1 ..< Suc (length (filter numbered (descendants example_document)))] = [Suc 0, 2, 3]"
    by (simp add: example_descendants upt_rec)
  have s: "str_nat 3 = ''3''"
    by (simp add: str_nat.simps digit_char_def)
  have c: "edition (FiftyOhmHtmlRenderer example_config) = Some ''3'' \<and> ''3'' \<noteq> []
      \<and> chapter' (FiftyOhmHtmlRenderer example_config) = Some ''2'' \<and> ''2'' \<noteq> []
      \<and> section' (FiftyOhmHtmlRenderer example_config) = Some ''1'' \<and> ''1'' \<noteq> []"
    by (simp add: FiftyOhmHtmlRenderer_def example_config_def)
  note t1 = figure_number_format [of "FiftyOhmHtmlRenderer example_config" example_document,
      THEN conjunct1, rule_format, OF c]
  have a: "map attr_number (filter numbered (descendants
      (snd (collect_figures (FiftyOhmHtmlRenderer example_config) example_document)))) ! 2 = Some ''3-2.1.3''"
    unfolding t1 n by (simp add: s)
  have d: "\<not> (truthy (edition ((FiftyOhmHtmlRenderer example_config)\<lparr>section' := None\<rparr>))
      \<and> truthy (chapter' ((FiftyOhmHtmlRenderer example_config)\<lparr>section' := None\<rparr>))
      \<and> truthy (section' ((FiftyOhmHtmlRenderer example_config)\<lparr>section' := None\<rparr>)))"
    by simp
  note t2 = figure_number_format [of "(FiftyOhmHtmlRenderer example_config)\<lparr>section' := None\<rparr>" example_document,
      THEN conjunct2, rule_format, OF d]
  have b: "map attr_number (filter numbered (descendants
      (snd (collect_figures ((FiftyOhmHtmlRenderer example_config)\<lparr>section' := None\<rparr>) example_document)))) ! 2
        = Some ''3''"
    unfolding t2 n by (simp add: s)
  from a b show ?thesis by blast
qed

subsection \<open>What the pass resets\<close>

lemma used_renderer_ids: "margin_id used_renderer = 1 \<and> margin_anchor_id used_renderer = 1"
  by (simp add: used_renderer_def FiftyOhmHtmlRenderer_def example_config_def join_children_def
      call_tag_helper_def render_tag_helper_def finish_def)

text \<open>
  C2, as the specification states it, fails: the pass does not reset the margin counters.
  A renderer that has rendered one margin note and one thematic break still has
  \<open>margin_id = 1\<close> and \<open>margin_anchor_id = 1\<close> after the pass, where a fresh instance has 0.
\<close>

theorem collect_figures_margin_counterexample:
  "margin_id (fst (collect_figures used_renderer example_document)) \<noteq>
     margin_id (FiftyOhmHtmlRenderer example_config)
   \<and> margin_anchor_id (fst (collect_figures used_renderer example_document)) \<noteq>
     margin_anchor_id (FiftyOhmHtmlRenderer example_config)"
proof -
  have run: "collect_figures_recursive (used_renderer\<lparr>figure_counter := 0, figure_map := Map.empty\<rparr>) example_document =
      (fst (collect_figures used_renderer example_document), snd (collect_figures used_renderer example_document))"
    by (simp add: collect_figures_def)
  from collect_frame(1)[OF run] obtain c' m'
    where f: "fst (collect_figures used_renderer example_document) = used_renderer\<lparr>figure_counter := c', figure_map := m'\<rparr>"
    by auto
  show ?thesis unfolding f by (simp add: used_renderer_ids) (simp add: FiftyOhmHtmlRenderer_def)
qed

text \<open>
  C2, amended. The pass starts from figure counter 0 and the empty figure map, whatever
  the two held before: its result does not depend on them, and on a token without
  children it ends with counter 0 and the empty map. Every other field of the renderer,
  \<open>margin_id\<close> and \<open>margin_anchor_id\<close> among them, is the same after the pass as before.
\<close>

theorem collect_figures_reset:
  "collect_figures (self\<lparr>figure_counter := c, figure_map := m\<rparr>) doc = collect_figures self doc
   \<and> figure_counter (fst (collect_figures self (Token k []))) = 0
   \<and> figure_map (fst (collect_figures self (Token k []))) = Map.empty
   \<and> (\<exists>c' m'. fst (collect_figures self doc) = self\<lparr>figure_counter := c', figure_map := m'\<rparr>)
   \<and> margin_id (fst (collect_figures self doc)) = margin_id self
   \<and> margin_anchor_id (fst (collect_figures self doc)) = margin_anchor_id self"
proof -
  let ?self0 = "self\<lparr>figure_counter := 0, figure_map := Map.empty\<rparr>"
  have run: "collect_figures_recursive ?self0 doc =
      (fst (collect_figures self doc), snd (collect_figures self doc))"
    by (simp add: collect_figures_def)
  from collect_frame(1)[OF run] obtain c' m'
    where f: "fst (collect_figures self doc) = self\<lparr>figure_counter := c', figure_map := m'\<rparr>"
    by auto
  have "margin_id (fst (collect_figures self doc)) = margin_id self"
    "margin_anchor_id (fst (collect_figures self doc)) = margin_anchor_id self"
    unfolding f by simp_all
  moreover have "\<exists>c' m'. fst (collect_figures self doc) = self\<lparr>figure_counter := c', figure_map := m'\<rparr>"
    using f by blast
  moreover have "collect_figures (self\<lparr>figure_counter := c, figure_map := m\<rparr>) doc = collect_figures self doc"
    by (simp add: collect_figures_def)
  moreover have "figure_counter (fst (collect_figures self (Token k []))) = 0"
    "figure_map (fst (collect_figures self (Token k []))) = Map.empty"
    by (simp_all add: collect_figures_def)
  ultimately show ?thesis by blast
qed

theorem collect_figures_reset_witness:
  "figure_counter (fst (collect_figures
      (fst (collect_figures (FiftyOhmHtmlRenderer example_config) example_document)) (Token Document []))) = 0
   \<and> margin_id (fst (collect_figures used_renderer example_document)) = 1"
  using collect_figures_reset [where self = "fst (collect_figures (FiftyOhmHtmlRenderer example_config) example_document)"
      and c = 0 and m = Map.empty and doc = "Token Document []" and k = Document]
    collect_figures_reset [where self = used_renderer and c = 0 and m = Map.empty
      and doc = example_document and k = Document]
  by (simp add: used_renderer_ids)

section \<open>Rendering\<close>

subsection \<open>What rendering leaves alone\<close>

lemma untouched_upd [simp]:
  "untouched (s\<lparr>margin_id := a\<rparr>) = untouched s"
  "untouched (s\<lparr>margin_anchor_id := b\<rparr>) = untouched s"
  "untouched (s\<lparr>template_calls := c\<rparr>) = untouched s"
  by (simp_all add: untouched_def)

lemma untouched_fields:
  "untouched s' = untouched s \<Longrightarrow> mode s' = mode s"
  by (metis (no_types) untouched_def renderer.select_convs(1) renderer.surjective renderer.update_convs(2,3,17))

lemma join_children_Inr:
  "join_children base res = Inr (s, self') \<longleftrightarrow> (\<exists>outs. res = Inr (outs, self') \<and> s = join_str base (not_none outs))"
  by (auto simp: join_children_def split: sum.splits)

lemma finish_Inr:
  "finish res f = Inr (out, self') \<longleftrightarrow> (\<exists>inner. res = Inr (inner, self') \<and> out = f inner self')"
  by (auto simp: finish_def split: sum.splits)

lemma leaf_Inr:
  "leaf self res = Inr (out, self') \<longleftrightarrow> (\<exists>s. res = Inr s \<and> out = Some s \<and> self' = self)"
  by (auto simp: leaf_def split: sum.splits)

lemma call_tag_helper_Inr:
  "call_tag_helper res type = Inr (out, self') \<longleftrightarrow>
     (\<exists>content s1. res = Inr (content, s1)
        \<and> out = Some (margin_template s1 type content (margin_id s1) (margin_anchor_id s1))
        \<and> self' = s1\<lparr>template_calls := template_calls s1 @ [(type, content, margin_id s1, margin_anchor_id s1)]\<rparr>)"
  by (auto simp: call_tag_helper_def render_tag_helper_def split: sum.splits)

lemma render_untouched:
  "render self t = Inr (out, self') \<Longrightarrow> untouched self' = untouched self"
  "render_list self ts = Inr (outs, self') \<Longrightarrow> untouched self' = untouched self"
  "render_qso_turns self ts qso = Inr (q, self') \<Longrightarrow> untouched self' = untouched self"
proof (induction self t and self ts and self ts qso arbitrary: out self' and outs self' and q self'
    rule: render_render_list_render_qso_turns.induct)
  case (1 self k cs)
  show ?case
  proof (cases k)
    case Document
    with 1 show ?thesis
      by (cases "mode self") (auto simp: finish_Inr join_children_Inr leaf_Inr call_tag_helper_Inr Let_def split: if_splits)
  next
    case Dash
    with 1 show ?thesis
      by (cases "mode self") (auto simp: finish_Inr join_children_Inr leaf_Inr call_tag_helper_Inr Let_def split: if_splits)
  next
    case BlockComment
    with 1 show ?thesis
      by (cases "mode self") (auto simp: finish_Inr join_children_Inr leaf_Inr call_tag_helper_Inr Let_def split: if_splits)
  next
    case Quote
    with 1 show ?thesis
      by (cases "mode self") (auto simp: finish_Inr join_children_Inr leaf_Inr call_tag_helper_Inr Let_def split: if_splits)
  next
    case (Unit a0 a1 a2)
    with 1 show ?thesis
      by (cases "mode self") (auto simp: finish_Inr join_children_Inr leaf_Inr call_tag_helper_Inr Let_def split: if_splits)
  next
    case Underline
    with 1 show ?thesis
      by (cases "mode self") (auto simp: finish_Inr join_children_Inr leaf_Inr call_tag_helper_Inr Let_def split: if_splits)
  next
    case (Morse a0)
    with 1 show ?thesis
      by (cases "mode self") (auto simp: finish_Inr join_children_Inr leaf_Inr call_tag_helper_Inr Let_def split: if_splits)
  next
    case (Tag a0)
    with 1 show ?thesis
      by (cases "mode self") (auto simp: finish_Inr join_children_Inr leaf_Inr call_tag_helper_Inr Let_def split: if_splits)
  next
    case (HalfwidthSpaces a0 a1)
    with 1 show ?thesis
      by (cases "mode self") (auto simp: finish_Inr join_children_Inr leaf_Inr call_tag_helper_Inr Let_def split: if_splits)
  next
    case (NonbreakingSpaces a0 a1)
    with 1 show ?thesis
      by (cases "mode self") (auto simp: finish_Inr join_children_Inr leaf_Inr call_tag_helper_Inr Let_def split: if_splits)
  next
    case (NonbreakingSpacesDots a0 a1 a2)
    with 1 show ?thesis
      by (cases "mode self") (auto simp: finish_Inr join_children_Inr leaf_Inr call_tag_helper_Inr Let_def split: if_splits)
  next
    case (References a0)
    with 1 show ?thesis
      by (cases "mode self") (auto simp: finish_Inr join_children_Inr leaf_Inr call_tag_helper_Inr Let_def split: if_splits)
  next
    case (Question a0)
    with 1 show ?thesis
      by (cases "mode self") (auto simp: finish_Inr join_children_Inr leaf_Inr call_tag_helper_Inr Let_def split: if_splits)
  next
    case (Picture a0 a1 a2 a3)
    with 1 show ?thesis
      by (cases "mode self") (auto simp: finish_Inr join_children_Inr leaf_Inr call_tag_helper_Inr Let_def split: if_splits)
  next
    case (Photo a0 a1 a2 a3)
    with 1 show ?thesis
      by (cases "mode self") (auto simp: finish_Inr join_children_Inr leaf_Inr call_tag_helper_Inr Let_def split: if_splits)
  next
    case (Table a0 a1 a2)
    with 1 show ?thesis
      by (cases "mode self") (auto simp: finish_Inr join_children_Inr leaf_Inr call_tag_helper_Inr Let_def split: if_splits)
  next
    case TableHeader
    with 1 show ?thesis
      by (cases "mode self") (auto simp: finish_Inr join_children_Inr leaf_Inr call_tag_helper_Inr Let_def split: if_splits)
  next
    case TableRow
    with 1 show ?thesis
      by (cases "mode self") (auto simp: finish_Inr join_children_Inr leaf_Inr call_tag_helper_Inr Let_def split: if_splits)
  next
    case (TableCell a0 a1)
    with 1 show ?thesis
      by (cases "mode self") (auto simp: finish_Inr join_children_Inr leaf_Inr call_tag_helper_Inr Let_def split: if_splits)
  next
    case (TableBody a0)
    with 1 show ?thesis
      by (cases "mode self") (auto simp: finish_Inr join_children_Inr leaf_Inr call_tag_helper_Inr Let_def split: if_splits)
  next
    case Qso
    with 1 show ?thesis
      by (cases "mode self") (auto simp: finish_Inr join_children_Inr leaf_Inr call_tag_helper_Inr Let_def split: if_splits)
  next
    case (QsoTurn a0)
    with 1 show ?thesis
      by (cases "mode self") (auto simp: finish_Inr join_children_Inr leaf_Inr call_tag_helper_Inr Let_def split: if_splits)
  next
    case (Include a0)
    with 1 show ?thesis
      by (cases "mode self") (auto simp: finish_Inr join_children_Inr leaf_Inr call_tag_helper_Inr Let_def split: if_splits)
  next
    case (Formula a0)
    with 1 show ?thesis
      by (cases "mode self") (auto simp: finish_Inr join_children_Inr leaf_Inr call_tag_helper_Inr Let_def split: if_splits)
  next
    case ThematicBreak
    with 1 show ?thesis
      by (cases "mode self") (auto simp: finish_Inr join_children_Inr leaf_Inr call_tag_helper_Inr Let_def split: if_splits)
  next
    case (SlideBreak a0)
    with 1 show ?thesis
      by (cases "mode self") (auto simp: finish_Inr join_children_Inr leaf_Inr call_tag_helper_Inr Let_def split: if_splits)
  next
    case Other
    with 1 show ?thesis
      by (cases "mode self") (auto simp: finish_Inr join_children_Inr leaf_Inr call_tag_helper_Inr Let_def split: if_splits)
  qed
next
  case (2 self)
  then show ?case by simp
next
  case (3 self child rest)
  then show ?case by (auto split: sum.splits prod.splits)
next
  case (4 self qso)
  then show ?case by simp
next
  case (5 self k cs rest qso)
  then show ?case
    by (cases k) (auto simp: join_children_Inr split: sum.splits prod.splits)
qed

subsection \<open>Joining the children\<close>

lemma not_none_append: "not_none (xs @ ys) = not_none xs @ not_none ys"
  by (induction xs rule: not_none.induct) simp_all

lemma join_str_empty: "join_str [] xs = concat xs"
  by (induction "[]::string" xs rule: join_str.induct) simp_all

lemma render_list_append:
  "render_list self (xs @ ys) =
     (case render_list self xs of
        Inl e \<Rightarrow> Inl e
      | Inr (outs1, self1) \<Rightarrow>
          (case render_list self1 ys of
             Inl e \<Rightarrow> Inl e
           | Inr (outs2, self2) \<Rightarrow> Inr (outs1 @ outs2, self2)))"
  by (induction xs arbitrary: self) (auto split: sum.splits prod.splits)

lemma render_list_absent:
  assumes "\<And>s. render s t = Inr (None, s)"
  shows "join_children base (render_list self (xs @ t # ys)) = join_children base (render_list self (xs @ ys))"
  by (auto simp: render_list_append assms join_children_def not_none_append split: sum.splits prod.splits)

lemma render_list_mode:
  "render_list self ts = Inr (outs, self') \<Longrightarrow> mode self' = mode self"
  using render_untouched(2) untouched_fields by blast

lemma render_list_empty_fragment:
  assumes "\<And>s. mode s = mode self \<Longrightarrow> render s t = Inr (Some [], s)"
  shows "join_children [] (render_list self (xs @ t # ys)) = join_children [] (render_list self (xs @ ys))"
proof (cases "render_list self xs")
  case (Inl e)
  then show ?thesis by (simp add: render_list_append join_children_def)
next
  case (Inr p)
  obtain outs1 self1 where p: "p = (outs1, self1)" by (cases p)
  from Inr p have "mode self1 = mode self" using render_list_mode by blast
  from assms[OF this] Inr p show ?thesis
    by (auto simp: render_list_append join_children_def not_none_append join_str_empty
        split: sum.splits prod.splits)
qed

subsection \<open>Tokens that render to nothing\<close>

text \<open>
  C8. A BlockComment renders to \<open>None\<close>, and a child list with a BlockComment anywhere
  in it joins, with any separator, to what the list without it joins to: no character
  and no separator is added, and the renderer ends in the same state. A TableBody without
  children renders to \<open>None\<close>, and a Table with such a body among its children renders
  exactly as the Table without it.
\<close>

theorem render_absent_children:
  "render self (Token BlockComment cs) = Inr (None, self)
   \<and> join_children base (render_list self (xs @ Token BlockComment cs # ys)) =
       join_children base (render_list self (xs @ ys))
   \<and> render_inner self (Token k (xs @ Token BlockComment cs # ys)) base =
       render_inner self (Token k (xs @ ys)) base
   \<and> render self (Token (TableBody header) []) = Inr (None, self)
   \<and> render self (Token (Table name caption number) (xs @ Token (TableBody header) [] # ys)) =
       render self (Token (Table name caption number) (xs @ ys))"
proof -
  have a: "\<And>s. render s (Token BlockComment cs) = Inr (None, s)" by simp
  have b: "\<And>s. render s (Token (TableBody header) []) = Inr (None, s)" by simp
  show ?thesis
    using render_list_absent[of "Token BlockComment cs", OF a]
      render_list_absent[of "Token (TableBody header) []", OF b]
    by (simp add: render_inner_def)
qed

theorem render_absent_children_witness:
  \<open>render_inner (FiftyOhmHtmlRenderer example_config)
      (Token Document [Token Dash [], Token BlockComment [], Token Dash []]) ''\<newline>'' =
     Inr ('' &ndash; \<newline> &ndash; '', FiftyOhmHtmlRenderer example_config)
   \<and> render (FiftyOhmHtmlRenderer example_config)
        (Token (Table None [] None) [Token (TableBody True) [], Token (TableBody False) []]) =
     Inr (Some ''<table class="table table-hover">\<newline></table>'', FiftyOhmHtmlRenderer example_config)\<close>
  using render_absent_children [of "FiftyOhmHtmlRenderer example_config" "[]" "''\<newline>''"
      "[Token Dash []]" "[Token Dash []]" Document True None "[]" None]
    render_absent_children [of "FiftyOhmHtmlRenderer example_config" "[]" "[]"
      "[]" "[Token (TableBody False) []]" Document True None "[]" None]
  by (simp add: render_inner_def join_children_def finish_def render_dash_def table_markup_def)

subsection \<open>The tags \<open>latexonly\<close> and \<open>webonly\<close>\<close>

text \<open>
  C1, as the specification states it, fails: in the document renderer a \<open>latexonly\<close> Tag
  renders to the empty string, not to \<open>None\<close>, so it is not filtered out, and where the
  children are joined with a newline (the document root) it brings a separator of its own.
\<close>

theorem latexonly_not_absent_counterexample:
  "render (FiftyOhmHtmlRenderer example_config) (Token (Tag ''latexonly'') []) \<noteq>
     Inr (None, FiftyOhmHtmlRenderer example_config)
   \<and> render (FiftyOhmHtmlRenderer example_config)
        (Token Document [Token Dash [], Token (Tag ''latexonly'') [], Token Dash []]) \<noteq>
      render (FiftyOhmHtmlRenderer example_config) (Token Document [Token Dash [], Token Dash []])"
  by (simp add: FiftyOhmHtmlRenderer_def join_children_def finish_def render_dash_def)

text \<open>
  C1, amended. In the document renderer a \<open>latexonly\<close> Tag renders to the empty string and
  leaves the renderer as it was; joined with the empty separator, which is the separator
  of every rule but the document root's, a child list with such a Tag joins to what the
  list without it joins to. A \<open>webonly\<close> Tag renders to exactly its children, rendered and
  joined with the empty separator, with no wrapper.
\<close>

theorem render_tag_latexonly_webonly:
  "mode self = DocumentMode \<longrightarrow>
     render self (Token (Tag ''latexonly'') cs) = Inr (Some [], self)
     \<and> join_children [] (render_list self (xs @ Token (Tag ''latexonly'') cs # ys)) =
         join_children [] (render_list self (xs @ ys))
     \<and> render self (Token (Tag ''webonly'') cs) =
         (case render_inner self (Token (Tag ''webonly'') cs) [] of
            Inl e \<Rightarrow> Inl e
          | Inr (inner, self') \<Rightarrow> Inr (Some inner, self'))"
proof
  assume m: "mode self = DocumentMode"
  have a: "\<And>s. mode s = mode self \<Longrightarrow> render s (Token (Tag ''latexonly'') cs) = Inr (Some [], s)"
    using m by simp
  from render_list_empty_fragment[of self "Token (Tag ''latexonly'') cs", OF a] m
  show "render self (Token (Tag ''latexonly'') cs) = Inr (Some [], self)
     \<and> join_children [] (render_list self (xs @ Token (Tag ''latexonly'') cs # ys)) =
         join_children [] (render_list self (xs @ ys))
     \<and> render self (Token (Tag ''webonly'') cs) =
         (case render_inner self (Token (Tag ''webonly'') cs) [] of
            Inl e \<Rightarrow> Inl e
          | Inr (inner, self') \<Rightarrow> Inr (Some inner, self'))"
    by (simp add: render_inner_def finish_def split: sum.splits prod.splits)
qed

theorem render_tag_latexonly_webonly_witness:
  "render (FiftyOhmHtmlRenderer example_config) (Token (Tag ''latexonly'') [Token Dash []]) =
     Inr (Some [], FiftyOhmHtmlRenderer example_config)
   \<and> render (FiftyOhmHtmlRenderer example_config) (Token (Tag ''webonly'') [Token Dash [], Token Dash []]) =
     Inr (Some '' &ndash;  &ndash; '', FiftyOhmHtmlRenderer example_config)"
proof -
  have m: "mode (FiftyOhmHtmlRenderer example_config) = DocumentMode"
    by (simp add: FiftyOhmHtmlRenderer_def)
  have i: "render_inner (FiftyOhmHtmlRenderer example_config) (Token (Tag ''webonly'') [Token Dash [], Token Dash []]) []
      = Inr ('' &ndash;  &ndash; '', FiftyOhmHtmlRenderer example_config)"
    by (simp add: render_inner_def join_children_def render_dash_def)
  note t = render_tag_latexonly_webonly [rule_format, OF m]
  from t [of "[Token Dash []]" "[]" "[]"] t [of "[Token Dash [], Token Dash []]" "[]" "[]"]
  show ?thesis by (simp only: i) simp
qed

subsection \<open>The margin counter and the calls of the template\<close>

lemma upt_counter_append:
  "[c + 1 ..< c + 1 + (m + n)] = [c + 1 ..< c + 1 + m] @ [c + m + 1 ..< c + m + 1 + n]"
proof -
  have "[c + 1 ..< (c + 1 + m) + n] = [c + 1 ..< c + 1 + m] @ [c + 1 + m ..< (c + 1 + m) + n]"
    by (rule upt_add_eq_append) simp
  moreover have "(c + 1 + m) + n = c + 1 + (m + n)" "c + 1 + m = c + m + 1" by simp_all
  ultimately show ?thesis by metis
qed

lemma margin_law_refl [simp]: "margin_law s s 0 fl"
  by (simp add: margin_law_def)

lemma margin_law_anchor [simp]: "margin_law s (s\<lparr>margin_anchor_id := b\<rparr>) 0 fl"
  by (simp add: margin_law_def)

lemma margin_law_trans:
  assumes "margin_law s s1 a f1" "margin_law s1 s2 b f2"
  shows "margin_law s s2 (a + b) (f1 \<and> f2)"
proof -
  from assms(1) obtain n1 where 1: "margin_id s1 = margin_id s + a"
    "template_calls s1 = template_calls s @ n1" "length n1 = a"
    "f1 \<longrightarrow> map call_id n1 = [margin_id s + 1 ..< margin_id s + 1 + a]"
    unfolding margin_law_def by blast
  from assms(2) obtain n2 where 2: "margin_id s2 = margin_id s1 + b"
    "template_calls s2 = template_calls s1 @ n2" "length n2 = b"
    "f2 \<longrightarrow> map call_id n2 = [margin_id s1 + 1 ..< margin_id s1 + 1 + b]"
    unfolding margin_law_def by blast
  have "template_calls s2 = template_calls s @ (n1 @ n2)" "length (n1 @ n2) = a + b"
    using 1 2 by simp_all
  moreover have "f1 \<and> f2 \<longrightarrow> map call_id (n1 @ n2) = [margin_id s + 1 ..< margin_id s + 1 + (a + b)]"
    using 1 2 by (simp only: upt_counter_append map_append) simp
  moreover have "margin_id s2 = margin_id s + (a + b)" using 1 2 by simp
  ultimately show ?thesis unfolding margin_law_def by blast
qed

lemma margin_law_call:
  assumes "margin_law (s\<lparr>margin_id := margin_id s + 1\<rparr>) s1 n fl"
  shows "margin_law s (s1\<lparr>template_calls := template_calls s1 @ [(ty, c, margin_id s1, a)]\<rparr>)
           (Suc n) (n = 0)"
proof -
  from assms obtain new where 1: "margin_id s1 = margin_id s + 1 + n"
    "template_calls s1 = template_calls s @ new" "length new = n"
    unfolding margin_law_def by auto
  show ?thesis unfolding margin_law_def
    using 1 by (auto simp: call_id_def)
qed

lemma margin_law_flag: "margin_law s s' n fl \<Longrightarrow> (fl' \<longrightarrow> fl) \<Longrightarrow> margin_law s s' n fl'"
  unfolding margin_law_def by blast

lemma render_margin_law:
  "render self t = Inr (out, self') \<Longrightarrow> mode self = DocumentMode \<Longrightarrow>
     margin_law self self' (margin_nodes t) (flat_margins t)"
  "render_list self ts = Inr (outs, self') \<Longrightarrow> mode self = DocumentMode \<Longrightarrow>
     margin_law self self' (margin_nodes_list ts) (flat_margins_list ts)"
  "render_qso_turns self ts qso = Inr (q, self') \<Longrightarrow> mode self = DocumentMode \<Longrightarrow>
     margin_law self self' (margin_nodes_turns ts) False"
proof (induction self t and self ts and self ts qso arbitrary: out self' and outs self' and q self'
    rule: render_render_list_render_qso_turns.induct)
  case (1 self k cs)
  show ?case
  proof (cases k)
    case Document
    with 1 show ?thesis
      by (auto simp: finish_Inr join_children_Inr leaf_Inr Let_def split: if_splits)
  next
    case Dash
    with 1 show ?thesis
      by (auto simp: finish_Inr join_children_Inr leaf_Inr Let_def split: if_splits)
  next
    case BlockComment
    with 1 show ?thesis
      by (auto simp: finish_Inr join_children_Inr leaf_Inr Let_def split: if_splits)
  next
    case Quote
    with 1 show ?thesis
      by (auto simp: finish_Inr join_children_Inr leaf_Inr Let_def split: if_splits)
  next
    case (Unit a0 a1 a2)
    with 1 show ?thesis
      by (auto simp: finish_Inr join_children_Inr leaf_Inr Let_def split: if_splits)
  next
    case Underline
    with 1 show ?thesis
      by (auto simp: finish_Inr join_children_Inr leaf_Inr Let_def split: if_splits)
  next
    case (Morse a0)
    with 1 show ?thesis
      by (auto simp: finish_Inr join_children_Inr leaf_Inr Let_def split: if_splits)
  next
    case (Tag a0)
    with 1 show ?thesis
      proof -
      from "1.prems" Tag have r: "render self (Token (Tag a0) cs) = Inr (out, self')" and m: "mode self = DocumentMode"
        by simp_all
      show ?thesis
      proof (cases "a0 = ''latexonly''")
        case True
        with r m Tag show ?thesis by simp
      next
        case l: False
        show ?thesis
        proof (cases "a0 = ''webonly''")
          case True
          with r m l obtain outs where "render_list self cs = Inr (outs, self')"
            by (auto simp: finish_Inr join_children_Inr)
          from "1.IH"(4)[OF Tag m l True this m] Tag l True show ?thesis by simp
        next
          case w: False
          let ?s = "self\<lparr>margin_id := margin_id self + 1\<rparr>"
          from r m l w obtain outs s1 content where
            a: "render_list ?s cs = Inr (outs, s1)" and
            b: "self' = s1\<lparr>template_calls := template_calls s1 @ [(tag_category a0, content, margin_id s1, margin_anchor_id s1)]\<rparr>"
            by (auto simp: call_tag_helper_Inr join_children_Inr)
          have ms: "mode ?s = DocumentMode" using m by simp
          from "1.IH"(5)[OF Tag m l w a ms] have "margin_law ?s s1 (margin_nodes_list cs) (flat_margins_list cs)" .
          from margin_law_call[OF this] b Tag l w show ?thesis by simp
        qed
      qed
    qed
  next
    case (HalfwidthSpaces a0 a1)
    with 1 show ?thesis
      by (auto simp: finish_Inr join_children_Inr leaf_Inr Let_def split: if_splits)
  next
    case (NonbreakingSpaces a0 a1)
    with 1 show ?thesis
      by (auto simp: finish_Inr join_children_Inr leaf_Inr Let_def split: if_splits)
  next
    case (NonbreakingSpacesDots a0 a1 a2)
    with 1 show ?thesis
      by (auto simp: finish_Inr join_children_Inr leaf_Inr Let_def split: if_splits)
  next
    case (References a0)
    with 1 show ?thesis
      by (auto simp: finish_Inr join_children_Inr leaf_Inr Let_def split: if_splits)
  next
    case (Question a0)
    with 1 show ?thesis
      by (auto simp: finish_Inr join_children_Inr leaf_Inr Let_def split: if_splits)
  next
    case (Picture a0 a1 a2 a3)
    with 1 show ?thesis
      by (auto simp: finish_Inr join_children_Inr leaf_Inr Let_def split: if_splits)
  next
    case (Photo a0 a1 a2 a3)
    with 1 show ?thesis
      by (auto simp: finish_Inr join_children_Inr leaf_Inr Let_def split: if_splits)
  next
    case (Table a0 a1 a2)
    with 1 show ?thesis
      by (auto simp: finish_Inr join_children_Inr leaf_Inr Let_def split: if_splits)
  next
    case TableHeader
    with 1 show ?thesis
      by (auto simp: finish_Inr join_children_Inr leaf_Inr Let_def split: if_splits)
  next
    case TableRow
    with 1 show ?thesis
      by (auto simp: finish_Inr join_children_Inr leaf_Inr Let_def split: if_splits)
  next
    case (TableCell a0 a1)
    with 1 show ?thesis
      by (auto simp: finish_Inr join_children_Inr leaf_Inr Let_def split: if_splits)
  next
    case (TableBody a0)
    with 1 show ?thesis
      by (auto simp: finish_Inr join_children_Inr leaf_Inr Let_def split: if_splits)
  next
    case Qso
    with 1 show ?thesis
      proof -
      from "1.prems" Qso have r: "render self (Token Qso cs) = Inr (out, self')" and m: "mode self = DocumentMode"
        by simp_all
      let ?s = "self\<lparr>margin_id := margin_id self + 1\<rparr>"
      from r m obtain s1 content where
        a: "render_qso_turns ?s cs [] = Inr (content, s1)" and
        b: "self' = s1\<lparr>template_calls := template_calls s1 @ [(''qso'', content, margin_id s1, margin_anchor_id s1)]\<rparr>"
        by (auto simp: call_tag_helper_Inr)
      have ms: "mode ?s = DocumentMode" using m by simp
      from "1.IH"(12)[OF Qso m a ms] have "margin_law ?s s1 (margin_nodes_turns cs) False" .
      from margin_law_call[OF this] b Qso show ?thesis by simp
    qed
  next
    case (QsoTurn a0)
    with 1 show ?thesis
      by (auto simp: finish_Inr join_children_Inr leaf_Inr Let_def split: if_splits)
  next
    case (Include a0)
    with 1 show ?thesis
      by (auto simp: finish_Inr join_children_Inr leaf_Inr Let_def split: if_splits)
  next
    case (Formula a0)
    with 1 show ?thesis
      by (auto simp: finish_Inr join_children_Inr leaf_Inr Let_def split: if_splits)
  next
    case ThematicBreak
    with 1 show ?thesis
      by (auto simp: finish_Inr join_children_Inr leaf_Inr Let_def split: if_splits)
  next
    case (SlideBreak a0)
    with 1 show ?thesis
      by (auto simp: finish_Inr join_children_Inr leaf_Inr Let_def split: if_splits)
  next
    case Other
    with 1 show ?thesis
      by (auto simp: finish_Inr join_children_Inr leaf_Inr Let_def split: if_splits)
  qed
next
  case (2 self)
  then show ?case by simp
next
  case (3 self child rest)
  from "3.prems" obtain out1 s1 outs1 where
    a: "render self child = Inr (out1, s1)" and b: "render_list s1 rest = Inr (outs1, self')"
    by (auto split: sum.splits prod.splits)
  have m1: "mode s1 = DocumentMode"
    using render_untouched(1)[OF a] untouched_fields "3.prems"(2) by metis
  from "3.IH"(1)[OF a "3.prems"(2)] "3.IH"(2)[OF a refl b m1]
  show ?case by (simp add: margin_law_trans)
next
  case (4 self qso)
  then show ?case by simp
next
  case (5 self k cs rest qso)
  from "5.prems"(1) obtain received where k: "k = QsoTurn received"
    by (cases k) simp_all
  from "5.prems"(1) k obtain outs1 s1 where
    a: "render_list self cs = Inr (outs1, s1)" and
    b: "render_qso_turns s1 rest (qso @ qso_turn_markup (mode s1) received (join_str [] (not_none outs1))) = Inr (q, self')"
    by (auto simp: join_children_def split: sum.splits prod.splits)
  have j: "join_children [] (render_list self cs) = Inr (join_str [] (not_none outs1), s1)"
    using a by (simp add: join_children_def)
  have m1: "mode s1 = DocumentMode"
    using render_untouched(2)[OF a] untouched_fields "5.prems"(2) by metis
  from "5.IH"(1)[OF k a "5.prems"(2)]
  have 1: "margin_law self s1 (margin_nodes_list cs) False" by (rule margin_law_flag) simp
  from "5.IH"(2)[OF k j refl b m1] have 2: "margin_law s1 self' (margin_nodes_turns rest) False" .
  from margin_law_trans[OF 1 2] k show ?case by simp
qed

lemmas render_eval = FiftyOhmHtmlRenderer_def example_config_def join_children_def finish_def
  call_tag_helper_def render_tag_helper_def render_dash_def tag_category_def qso_turn_markup_def
  str_nat.simps digit_char_def Let_def

text \<open>
  C10, as the specification states it, fails where a Tag or a Qso is rendered inside
  another Tag. A \<open>webmargin\<close> Tag around a \<open>webtip\<close> Tag raises \<open>margin_id\<close> by two, and
  both calls of the template get the id 2, because the outer Tag reads \<open>margin_id\<close> after
  its children are rendered: the ids are neither consecutive nor strictly increasing. A
  \<open>webonly\<close> Tag around a \<open>webtip\<close> Tag raises \<open>margin_id\<close> by one.
\<close>

theorem margin_id_nested_counterexample:
  "render (FiftyOhmHtmlRenderer example_config) (Token (Tag ''webmargin'') [Token (Tag ''webtip'') []]) =
     Inr (Some ''<margin 2><tip 2>'',
          (FiftyOhmHtmlRenderer example_config)
            \<lparr>margin_id := 2, template_calls := [(''tip'', [], 2, 0), (''margin'', ''<tip 2>'', 2, 0)]\<rparr>)
   \<and> margin_id ((FiftyOhmHtmlRenderer example_config)
            \<lparr>margin_id := 2, template_calls := [(''tip'', [], 2, 0), (''margin'', ''<tip 2>'', 2, 0)]\<rparr>)
       \<noteq> margin_id (FiftyOhmHtmlRenderer example_config) + 1
   \<and> \<not> sorted_wrt (<) (map call_id [(''tip'', [], 2, 0), (''margin'', ''<tip 2>'', 2, 0)])
   \<and> render (FiftyOhmHtmlRenderer example_config) (Token (Tag ''webonly'') [Token (Tag ''webtip'') []]) =
     Inr (Some ''<tip 1>'',
          (FiftyOhmHtmlRenderer example_config)
            \<lparr>margin_id := 1, template_calls := [(''tip'', [], 1, 0)]\<rparr>)
   \<and> margin_id ((FiftyOhmHtmlRenderer example_config)
            \<lparr>margin_id := 1, template_calls := [(''tip'', [], 1, 0)]\<rparr>)
       \<noteq> margin_id (FiftyOhmHtmlRenderer example_config)"
  by (simp add: render_eval call_id_def)

text \<open>
  C10, amended. In the document renderer a \<open>latexonly\<close> Tag leaves the renderer, and so
  \<open>margin_id\<close>, as it was, and a \<open>webonly\<close> Tag leaves the renderer as its children leave it.
  Rendering a token without an exception raises \<open>margin_id\<close> by exactly the number of
  template calls it makes, one for each rendered Tag of another type and each Qso. A Tag of
  another type or a Qso with no such token rendered inside it raises \<open>margin_id\<close> by
  exactly one before it delegates to the template, which gets the raised value. When no
  such token is rendered inside another, the ids handed to the template in one render are
  the values that follow the old \<open>margin_id\<close>, consecutive and strictly increasing.
\<close>

theorem margin_ids:
  "mode self = DocumentMode \<longrightarrow>
     render self (Token (Tag ''latexonly'') cs) = Inr (Some [], self)
     \<and> margin_nodes (Token (Tag ''webonly'') cs) = margin_nodes_list cs
     \<and> (render self (Token (Tag ''webonly'') cs) = Inr (out0, self0) \<longrightarrow>
          (\<exists>outs. render_list self cs = Inr (outs, self0)))
     \<and> (render self t = Inr (out, self') \<longrightarrow>
          margin_id self' = margin_id self + margin_nodes t
          \<and> (\<exists>new. template_calls self' = template_calls self @ new
                \<and> length new = margin_nodes t
                \<and> (flat_margins t \<longrightarrow>
                     map call_id new = [margin_id self + 1 ..< margin_id self + 1 + margin_nodes t]
                     \<and> sorted_wrt (<) (map call_id new))))
     \<and> ((k = Qso \<or> (\<exists>tagtype. k = Tag tagtype \<and> tagtype \<noteq> ''latexonly'' \<and> tagtype \<noteq> ''webonly''))
          \<and> margin_nodes (Token k cs) = 1
          \<and> render self (Token k cs) = Inr (out', self'') \<longrightarrow>
          margin_id self'' = margin_id self + 1
          \<and> (\<exists>type content anchor.
                template_calls self'' = template_calls self @ [(type, content, margin_id self + 1, anchor)]))"
proof (intro impI conjI)
  assume m: "mode self = DocumentMode"
  then show "render self (Token (Tag ''latexonly'') cs) = Inr (Some [], self)" by simp
  show "margin_nodes (Token (Tag ''webonly'') cs) = margin_nodes_list cs" by simp
next
  assume m: "mode self = DocumentMode"
    and r: "render self (Token (Tag ''webonly'') cs) = Inr (out0, self0)"
  then show "\<exists>outs. render_list self cs = Inr (outs, self0)"
    by (auto simp: finish_Inr join_children_Inr)
next
  assume m: "mode self = DocumentMode" and r: "render self t = Inr (out, self')"
  from render_margin_law(1)[OF r m] obtain new where
    n: "template_calls self' = template_calls self @ new" "length new = margin_nodes t"
      "flat_margins t \<longrightarrow> map call_id new = [margin_id self + 1 ..< margin_id self + 1 + margin_nodes t]"
    and i: "margin_id self' = margin_id self + margin_nodes t"
    unfolding margin_law_def by blast
  from i show "margin_id self' = margin_id self + margin_nodes t" .
  have "flat_margins t \<longrightarrow> sorted_wrt (<) (map call_id new)"
    using n(3) by (auto simp del: upt_Suc)
  with n show "\<exists>new. template_calls self' = template_calls self @ new
                \<and> length new = margin_nodes t
                \<and> (flat_margins t \<longrightarrow>
                     map call_id new = [margin_id self + 1 ..< margin_id self + 1 + margin_nodes t]
                     \<and> sorted_wrt (<) (map call_id new))"
    by blast
next
  assume m: "mode self = DocumentMode"
    and a: "(k = Qso \<or> (\<exists>tagtype. k = Tag tagtype \<and> tagtype \<noteq> ''latexonly'' \<and> tagtype \<noteq> ''webonly''))
          \<and> margin_nodes (Token k cs) = 1
          \<and> render self (Token k cs) = Inr (out', self'')"
  then have n: "margin_nodes (Token k cs) = 1" and r: "render self (Token k cs) = Inr (out', self'')"
    by blast+
  from a have fl: "flat_margins (Token k cs)" by auto
  from render_margin_law(1)[OF r m] n fl obtain new where
    1: "margin_id self'' = margin_id self + 1" and
    2: "template_calls self'' = template_calls self @ new" and
    3: "length new = 1" and
    4: "map call_id new = [margin_id self + 1 ..< margin_id self + 1 + 1]"
    unfolding margin_law_def by auto
  from 3 obtain x where x: "new = [x]" by (cases new) auto
  obtain ty c i an where xx: "x = (ty, c, i, an)" by (cases x)
  from 4 x xx have "i = margin_id self + 1" by (simp add: call_id_def)
  with 2 x xx have "template_calls self'' = template_calls self @ [(ty, c, margin_id self + 1, an)]"
    by simp
  then show "\<exists>type content anchor.
                template_calls self'' = template_calls self @ [(type, content, margin_id self + 1, anchor)]"
    by blast
  from 1 show "margin_id self'' = margin_id self + 1" .
qed

theorem margin_ids_witness:
  "\<exists>out self'. render (FiftyOhmHtmlRenderer example_config) example_margins = Inr (out, self')
     \<and> margin_id self' = 3
     \<and> map call_id (template_calls self') = [1, 2, 3]"
proof -
  let ?r = "FiftyOhmHtmlRenderer example_config"
  have m: "mode ?r = DocumentMode" "margin_id ?r = 0" "template_calls ?r = []"
    by (simp_all add: FiftyOhmHtmlRenderer_def)
  have "\<exists>out self'. render ?r example_margins = Inr (out, self')"
    by (simp add: example_margins_def render_eval)
  then obtain out self' where r: "render ?r example_margins = Inr (out, self')" by blast
  have n: "margin_nodes example_margins = 3" "flat_margins example_margins"
    by (simp_all add: example_margins_def)
  from margin_ids [where self = ?r and t = example_margins and out = out and self' = self',
      THEN mp, OF m(1), THEN conjunct2, THEN conjunct2, THEN conjunct2, THEN conjunct1, THEN mp, OF r]
  have p: "margin_id self' = 3 \<and> map call_id (template_calls self') = [1, 2, 3]"
    by (auto simp: m n upt_rec)
  show ?thesis
    by (rule exI[of _ out], rule exI[of _ self']) (simp add: r p)
qed

end
